theory Spec2Isabelle
  imports Complex_Main "HOL-Library.Word"
begin

section \<open>Data model of \<^verbatim>\<open>internal/handlers/loki_protocol.go\<close>\<close>

text \<open>
  The three request structs. Go gives each struct its own fields of the same names; here
  \<open>LokiLabelNamesRequest\<close> carries the eight fields the three structs share and the other
  two extend it (\<open>Label\<close>; \<open>Query\<close> and \<open>Limit\<close>), so that \<open>URL\<close>, \<open>Start\<close>, ... keep
  their names. A field missing from the JSON arguments keeps Go's zero value: \<open>''''\<close> for a
  string and \<open>0\<close> for the \<open>float64\<close> field \<open>Limit\<close>. A \<open>float64\<close> decoded from JSON is finite,
  so it is a \<open>real\<close> here.
\<close>

record LokiLabelNamesRequest =
  URL :: string
  Username :: string
  Password :: string
  Token :: string
  Start :: string
  End :: string
  Org :: string
  Format :: string

record LokiLabelValuesRequest = LokiLabelNamesRequest +
  Label :: string

record LokiQueryRequest = LokiLabelNamesRequest +
  Query :: string
  Limit :: real

text \<open>\<open>protocol.TextContent\<close> and \<open>protocol.CallToolResult\<close>, as far as the handlers fill them.\<close>

record TextContent =
  Type :: string
  Text :: string

record CallToolResult =
  Content :: "TextContent list"

text \<open>A Go \<open>error\<close> is its message. \<open>fmt.Errorf("prefix: %v", err)\<close> prepends the prefix.\<close>

datatype error = Error (message: string)

definition Errorf :: "string \<Rightarrow> error \<Rightarrow> error" where
  "Errorf prefix err = Error (prefix @ message err)"

text \<open>
  \<open>time.Time\<close> is an instant with nanosecond resolution: the nanoseconds since the Unix
  epoch. \<open>Unix\<close> is the whole seconds since the epoch (Go keeps the nanosecond part
  non-negative, so the seconds are the floor), \<open>Add\<close> shifts by a \<open>time.Duration\<close>, which
  counts nanoseconds.
\<close>

datatype Time = Instant (UnixNano: int)

type_synonym Duration = int

definition Second :: Duration where
  "Second = 1000000000"

definition Hour :: Duration where
  "Hour = 3600 * Second"

definition Add :: "Time \<Rightarrow> Duration \<Rightarrow> Time" where
  "Add t d = Instant (UnixNano t + d)"

definition Unix :: "Time \<Rightarrow> int" where
  "Unix t = UnixNano t div 1000000000"

text \<open>
  The conversion \<open>int(f)\<close> of a \<open>float64\<close> on a 64-bit platform: the fraction is discarded
  (truncation towards zero). When the truncated value does not fit the 64-bit \<open>int\<close>
  the result is implementation-dependent in Go; \<open>impl\<close> is what the platform gives then.
\<close>

definition float_trunc :: "real \<Rightarrow> int" where
  "float_trunc f = (if f < 0 then \<lceil>f\<rceil> else \<lfloor>f\<rfloor>)"

definition go_int :: "(real \<Rightarrow> 64 word) \<Rightarrow> real \<Rightarrow> int" where
  "go_int impl f =
     (if - (2 ^ 63) \<le> float_trunc f \<and> float_trunc f < 2 ^ 63 then float_trunc f else sint (impl f))"

section \<open>Configuration precedence\<close>

text \<open>
  \<open>getEnvOrDefault\<close>. The process environment is the function \<open>getenv\<close>: \<open>os.Getenv\<close>
  gives \<open>''''\<close> for a variable that is not set.
\<close>

definition getEnvOrDefault :: "(string \<Rightarrow> string) \<Rightarrow> string \<Rightarrow> string \<Rightarrow> string \<Rightarrow> string" where
  "getEnvOrDefault getenv value envKey defaultValue =
     (if value \<noteq> [] then value
      else (let envValue = getenv envKey in
        if envValue \<noteq> [] then envValue
        else defaultValue))"

text \<open>
  The names of the environment variables and the default URL are constants of the package
  declared beside the handlers; their values are the ones \<^verbatim>\<open>cmd/server/main.go\<close> reads
  at start-up and the README documents.
\<close>

definition EnvLokiURL :: string where "EnvLokiURL = ''LOKI_URL''"
definition EnvLokiOrgID :: string where "EnvLokiOrgID = ''LOKI_ORG_ID''"
definition EnvLokiUsername :: string where "EnvLokiUsername = ''LOKI_USERNAME''"
definition EnvLokiPassword :: string where "EnvLokiPassword = ''LOKI_PASSWORD''"
definition EnvLokiToken :: string where "EnvLokiToken = ''LOKI_TOKEN''"
definition DefaultLokiURL :: string where "DefaultLokiURL = ''http://localhost:3100''"

section \<open>The handlers' collaborators and their effects\<close>

text \<open>
  A handler calls functions that live outside \<^verbatim>\<open>loki_protocol.go\<close>: the argument
  decoder of the protocol library, the clock, and the package's time parser, URL builders,
  query executors and formatters. They are the fields of \<open>deps\<close>. The clock, the time
  parser (it reads the clock) and the executors (they talk to the backend) depend on the
  outside world \<open>'w\<close> and may change it, so they take the world and return the new one.
  \<open>'r\<close> is the decoded backend response. \<open>intImpl\<close> is the platform's out-of-range
  \<open>float64\<close>-to-\<open>int\<close> conversion. The \<open>context.Context\<close> a handler hands to its
  executor carries cancellation only and is left out.
\<close>

record ('w, 'r) deps =
  VerifyAndUnmarshalQuery :: "string \<Rightarrow> error + LokiQueryRequest"
  VerifyAndUnmarshalLabelNames :: "string \<Rightarrow> error + LokiLabelNamesRequest"
  VerifyAndUnmarshalLabelValues :: "string \<Rightarrow> error + LokiLabelValuesRequest"
  Getenv :: "string \<Rightarrow> string"
  Now :: "'w \<Rightarrow> Time \<times> 'w"
  intImpl :: "real \<Rightarrow> 64 word"
  parseTime :: "string \<Rightarrow> 'w \<Rightarrow> (error + Time) \<times> 'w"
  buildLokiQueryURL :: "string \<Rightarrow> string \<Rightarrow> int \<Rightarrow> int \<Rightarrow> int \<Rightarrow> error + string"
  buildLokiLabelsURL :: "string \<Rightarrow> int \<Rightarrow> int \<Rightarrow> error + string"
  buildLokiLabelValuesURL :: "string \<Rightarrow> string \<Rightarrow> int \<Rightarrow> int \<Rightarrow> error + string"
  executeLokiQuery ::
    "string \<Rightarrow> string \<Rightarrow> string \<Rightarrow> string \<Rightarrow> string \<Rightarrow> 'w \<Rightarrow> (error + 'r) \<times> 'w"
  executeLokiLabelsQuery ::
    "string \<Rightarrow> string \<Rightarrow> string \<Rightarrow> string \<Rightarrow> string \<Rightarrow> 'w \<Rightarrow> (error + 'r) \<times> 'w"
  executeLokiLabelValuesQuery ::
    "string \<Rightarrow> string \<Rightarrow> string \<Rightarrow> string \<Rightarrow> string \<Rightarrow> 'w \<Rightarrow> (error + 'r) \<times> 'w"
  formatLokiResults :: "'r \<Rightarrow> string \<Rightarrow> error + string"
  formatLokiLabelsResults :: "'r \<Rightarrow> string \<Rightarrow> error + string"
  formatLokiLabelValuesResults :: "string \<Rightarrow> 'r \<Rightarrow> string \<Rightarrow> error + string"

text \<open>
  What a handler did is observable as the list of calls it made to the time parser, a URL
  builder, an executor and a formatter, in program order, each with its arguments (the
  decoded response apart) and with whether it returned an error.
\<close>

datatype call =
    ParseTime string
  | BuildLokiQueryURL string string int int int
  | BuildLokiLabelsURL string int int
  | BuildLokiLabelValuesURL string string int int
  | ExecuteLokiQuery string string string string string
  | ExecuteLokiLabelsQuery string string string string string
  | ExecuteLokiLabelValuesQuery string string string string string
  | FormatLokiResults string
  | FormatLokiLabelsResults string
  | FormatLokiLabelValuesResults string string

record event =
  called :: call
  failed :: bool

text \<open>
  A handler body is a computation on the pair of the world and the calls made so far; it
  returns an error or a value. \<open>io_bind\<close> is the sequencing of Go statements in which an
  error returns from the handler at once.
\<close>

type_synonym ('w, 'a) io = "'w \<times> event list \<Rightarrow> (error + 'a) \<times> 'w \<times> event list"

definition io_return :: "'a \<Rightarrow> ('w, 'a) io" where
  "io_return a = (\<lambda>s. (Inr a, s))"

definition io_bind :: "('w, 'a) io \<Rightarrow> ('a \<Rightarrow> ('w, 'b) io) \<Rightarrow> ('w, 'b) io" where
  "io_bind m f = (\<lambda>s. case m s of (Inl err, s') \<Rightarrow> (Inl err, s') | (Inr a, s') \<Rightarrow> f a s')"

definition io_lift :: "error + 'a \<Rightarrow> ('w, 'a) io" where
  "io_lift r = (\<lambda>s. (r, s))"

definition io_read :: "('w \<Rightarrow> 'a \<times> 'w) \<Rightarrow> ('w, 'a) io" where
  "io_read f = (\<lambda>(w, evs). case f w of (a, w') \<Rightarrow> (Inr a, w', evs))"

definition io_call :: "call \<Rightarrow> ('w \<Rightarrow> (error + 'a) \<times> 'w) \<Rightarrow> ('w, 'a) io" where
  "io_call c f =
     (\<lambda>(w, evs). case f w of (r, w') \<Rightarrow> (r, w', evs @ [\<lparr>called = c, failed = isl r\<rparr>]))"

definition io_call_pure :: "call \<Rightarrow> error + 'a \<Rightarrow> ('w, 'a) io" where
  "io_call_pure c r = io_call c (\<lambda>w. (r, w))"

definition io_wrap :: "string \<Rightarrow> ('w, 'a) io \<Rightarrow> ('w, 'a) io" where
  "io_wrap prefix m =
     (\<lambda>s. case m s of (Inl err, s') \<Rightarrow> (Inl (Errorf prefix err), s') | (Inr a, s') \<Rightarrow> (Inr a, s'))"

section \<open>The three handlers\<close>

definition HandleLokiQueryProtocol :: "('w, 'r) deps \<Rightarrow> string \<Rightarrow> ('w, CallToolResult) io" where
  "HandleLokiQueryProtocol d rawArguments =
     io_bind (io_lift (VerifyAndUnmarshalQuery d rawArguments)) (\<lambda>req.
     let lokiURL = getEnvOrDefault (Getenv d) (URL req) EnvLokiURL DefaultLokiURL;
         username = getEnvOrDefault (Getenv d) (Username req) EnvLokiUsername [];
         password = getEnvOrDefault (Getenv d) (Password req) EnvLokiPassword [];
         token = getEnvOrDefault (Getenv d) (Token req) EnvLokiToken [];
         orgID = getEnvOrDefault (Getenv d) (Org req) EnvLokiOrgID []
     in
     io_bind (io_read (Now d)) (\<lambda>now1.
     io_bind (io_read (Now d)) (\<lambda>now2.
     let start0 = Unix (Add now1 (-1 * Hour));
         end0 = Unix now2;
         limit0 = 100
     in
     io_bind
       (if Start req \<noteq> [] then
          io_bind (io_wrap ''invalid start time: ''
                     (io_call (ParseTime (Start req)) (parseTime d (Start req))))
            (\<lambda>startTime. io_return (Unix startTime))
        else io_return start0) (\<lambda>start.
     io_bind
       (if End req \<noteq> [] then
          io_bind (io_wrap ''invalid end time: ''
                     (io_call (ParseTime (End req)) (parseTime d (End req))))
            (\<lambda>endTime. io_return (Unix endTime))
        else io_return end0) (\<lambda>end.
     let limit = (if Limit req > 0 then go_int (intImpl d) (Limit req) else limit0);
         format = (if Format req \<noteq> [] then Format req else ''raw'')
     in
     io_bind (io_wrap ''failed to build query URL: ''
                (io_call_pure (BuildLokiQueryURL lokiURL (Query req) start end limit)
                   (buildLokiQueryURL d lokiURL (Query req) start end limit))) (\<lambda>queryURL.
     io_bind (io_wrap ''query execution failed: ''
                (io_call (ExecuteLokiQuery queryURL username password token orgID)
                   (executeLokiQuery d queryURL username password token orgID))) (\<lambda>result.
     io_bind (io_wrap ''failed to format results: ''
                (io_call_pure (FormatLokiResults format)
                   (formatLokiResults d result format))) (\<lambda>formattedResult.
     io_return \<lparr>Content = [\<lparr>Type = ''text'', Text = formattedResult\<rparr>]\<rparr>))))))))"

definition HandleLokiLabelNamesProtocol :: "('w, 'r) deps \<Rightarrow> string \<Rightarrow> ('w, CallToolResult) io" where
  "HandleLokiLabelNamesProtocol d rawArguments =
     io_bind (io_lift (VerifyAndUnmarshalLabelNames d rawArguments)) (\<lambda>req.
     let lokiURL = getEnvOrDefault (Getenv d) (URL req) EnvLokiURL DefaultLokiURL;
         username = getEnvOrDefault (Getenv d) (Username req) EnvLokiUsername [];
         password = getEnvOrDefault (Getenv d) (Password req) EnvLokiPassword [];
         token = getEnvOrDefault (Getenv d) (Token req) EnvLokiToken [];
         orgID = getEnvOrDefault (Getenv d) (Org req) EnvLokiOrgID []
     in
     io_bind (io_read (Now d)) (\<lambda>now1.
     io_bind (io_read (Now d)) (\<lambda>now2.
     let start0 = Unix (Add now1 (-1 * Hour));
         end0 = Unix now2
     in
     io_bind
       (if Start req \<noteq> [] then
          io_bind (io_wrap ''invalid start time: ''
                     (io_call (ParseTime (Start req)) (parseTime d (Start req))))
            (\<lambda>startTime. io_return (Unix startTime))
        else io_return start0) (\<lambda>start.
     io_bind
       (if End req \<noteq> [] then
          io_bind (io_wrap ''invalid end time: ''
                     (io_call (ParseTime (End req)) (parseTime d (End req))))
            (\<lambda>endTime. io_return (Unix endTime))
        else io_return end0) (\<lambda>end.
     let format = (if Format req \<noteq> [] then Format req else ''raw'')
     in
     io_bind (io_wrap ''failed to build labels URL: ''
                (io_call_pure (BuildLokiLabelsURL lokiURL start end)
                   (buildLokiLabelsURL d lokiURL start end))) (\<lambda>labelsURL.
     io_bind (io_wrap ''labels query execution failed: ''
                (io_call (ExecuteLokiLabelsQuery labelsURL username password token orgID)
                   (executeLokiLabelsQuery d labelsURL username password token orgID))) (\<lambda>result.
     io_bind (io_wrap ''failed to format results: ''
                (io_call_pure (FormatLokiLabelsResults format)
                   (formatLokiLabelsResults d result format))) (\<lambda>formattedResult.
     io_return \<lparr>Content = [\<lparr>Type = ''text'', Text = formattedResult\<rparr>]\<rparr>))))))))"

definition HandleLokiLabelValuesProtocol :: "('w, 'r) deps \<Rightarrow> string \<Rightarrow> ('w, CallToolResult) io" where
  "HandleLokiLabelValuesProtocol d rawArguments =
     io_bind (io_lift (VerifyAndUnmarshalLabelValues d rawArguments)) (\<lambda>req.
     let lokiURL = getEnvOrDefault (Getenv d) (URL req) EnvLokiURL DefaultLokiURL;
         username = getEnvOrDefault (Getenv d) (Username req) EnvLokiUsername [];
         password = getEnvOrDefault (Getenv d) (Password req) EnvLokiPassword [];
         token = getEnvOrDefault (Getenv d) (Token req) EnvLokiToken [];
         orgID = getEnvOrDefault (Getenv d) (Org req) EnvLokiOrgID []
     in
     io_bind (io_read (Now d)) (\<lambda>now1.
     io_bind (io_read (Now d)) (\<lambda>now2.
     let start0 = Unix (Add now1 (-1 * Hour));
         end0 = Unix now2
     in
     io_bind
       (if Start req \<noteq> [] then
          io_bind (io_wrap ''invalid start time: ''
                     (io_call (ParseTime (Start req)) (parseTime d (Start req))))
            (\<lambda>startTime. io_return (Unix startTime))
        else io_return start0) (\<lambda>start.
     io_bind
       (if End req \<noteq> [] then
          io_bind (io_wrap ''invalid end time: ''
                     (io_call (ParseTime (End req)) (parseTime d (End req))))
            (\<lambda>endTime. io_return (Unix endTime))
        else io_return end0) (\<lambda>end.
     let format = (if Format req \<noteq> [] then Format req else ''raw'')
     in
     io_bind (io_wrap ''failed to build label values URL: ''
                (io_call_pure (BuildLokiLabelValuesURL lokiURL (Label req) start end)
                   (buildLokiLabelValuesURL d lokiURL (Label req) start end))) (\<lambda>labelValuesURL.
     io_bind (io_wrap ''label values query execution failed: ''
                (io_call (ExecuteLokiLabelValuesQuery labelValuesURL username password token orgID)
                   (executeLokiLabelValuesQuery d labelValuesURL username password token orgID))) (\<lambda>result.
     io_bind (io_wrap ''failed to format results: ''
                (io_call_pure (FormatLokiLabelValuesResults (Label req) format)
                   (formatLokiLabelValuesResults d (Label req) result format))) (\<lambda>formattedResult.
     io_return \<lparr>Content = [\<lparr>Type = ''text'', Text = formattedResult\<rparr>]\<rparr>))))))))"

section \<open>Tool registration and what a run shows\<close>

text \<open>
  \<^verbatim>\<open>cmd/server/main.go\<close> registers the three handlers under the tool names
  \<open>loki_query\<close>, \<open>loki_label_names\<close> and \<open>loki_label_values\<close>.
\<close>

datatype operation = loki_query | loki_label_names | loki_label_values

fun handler :: "operation \<Rightarrow> ('w, 'r) deps \<Rightarrow> string \<Rightarrow> ('w, CallToolResult) io" where
  "handler loki_query = HandleLokiQueryProtocol"
| "handler loki_label_names = HandleLokiLabelNamesProtocol"
| "handler loki_label_values = HandleLokiLabelValuesProtocol"

text \<open>
  The outcome of an operation's argument decoding, restricted to the fields the three
  request structs share.
\<close>

fun decodeArguments ::
  "('w, 'r) deps \<Rightarrow> operation \<Rightarrow> string \<Rightarrow> error + LokiLabelNamesRequest" where
  "decodeArguments d loki_query raw =
     map_sum id LokiLabelNamesRequest.truncate (VerifyAndUnmarshalQuery d raw)"
| "decodeArguments d loki_label_names raw = VerifyAndUnmarshalLabelNames d raw"
| "decodeArguments d loki_label_values raw =
     map_sum id LokiLabelNamesRequest.truncate (VerifyAndUnmarshalLabelValues d raw)"

text \<open>Readings of the list of calls: what was parsed, what range was built, what kind a call is.\<close>

fun parsedExpr :: "call \<Rightarrow> string option" where
  "parsedExpr (ParseTime expr) = Some expr"
| "parsedExpr _ = None"

fun timeRange :: "call \<Rightarrow> (int \<times> int) option" where
  "timeRange (BuildLokiQueryURL lokiURL query start end limit) = Some (start, end)"
| "timeRange (BuildLokiLabelsURL lokiURL start end) = Some (start, end)"
| "timeRange (BuildLokiLabelValuesURL lokiURL label start end) = Some (start, end)"
| "timeRange _ = None"

fun queryLimit :: "call \<Rightarrow> int option" where
  "queryLimit (BuildLokiQueryURL lokiURL query start end limit) = Some limit"
| "queryLimit _ = None"

fun isParse :: "call \<Rightarrow> bool" where
  "isParse (ParseTime expr) = True"
| "isParse _ = False"

fun isBuild :: "call \<Rightarrow> bool" where
  "isBuild (BuildLokiQueryURL lokiURL query start end limit) = True"
| "isBuild (BuildLokiLabelsURL lokiURL start end) = True"
| "isBuild (BuildLokiLabelValuesURL lokiURL label start end) = True"
| "isBuild _ = False"

fun isExecute :: "call \<Rightarrow> bool" where
  "isExecute (ExecuteLokiQuery url username password token orgID) = True"
| "isExecute (ExecuteLokiLabelsQuery url username password token orgID) = True"
| "isExecute (ExecuteLokiLabelValuesQuery url username password token orgID) = True"
| "isExecute _ = False"

fun isFormat :: "call \<Rightarrow> bool" where
  "isFormat (FormatLokiResults format) = True"
| "isFormat (FormatLokiLabelsResults format) = True"
| "isFormat (FormatLokiLabelValuesResults label format) = True"
| "isFormat _ = False"

fun executeArgs :: "call \<Rightarrow> (string \<times> string \<times> string \<times> string \<times> string) option" where
  "executeArgs (ExecuteLokiQuery url username password token orgID) =
     Some (url, username, password, token, orgID)"
| "executeArgs (ExecuteLokiLabelsQuery url username password token orgID) =
     Some (url, username, password, token, orgID)"
| "executeArgs (ExecuteLokiLabelValuesQuery url username password token orgID) =
     Some (url, username, password, token, orgID)"
| "executeArgs _ = None"

text \<open>What the formatter a call names returns on a decoded response.\<close>

fun formatOutcome :: "('w, 'r) deps \<Rightarrow> call \<Rightarrow> 'r \<Rightarrow> (error + string) option" where
  "formatOutcome d (FormatLokiResults format) result = Some (formatLokiResults d result format)"
| "formatOutcome d (FormatLokiLabelsResults format) result =
     Some (formatLokiLabelsResults d result format)"
| "formatOutcome d (FormatLokiLabelValuesResults label format) result =
     Some (formatLokiLabelValuesResults d label result format)"
| "formatOutcome d _ result = None"

definition parsedExprs :: "event list \<Rightarrow> string list" where
  "parsedExprs evs = List.map_filter (\<lambda>ev. parsedExpr (called ev)) evs"

definition builtRanges :: "event list \<Rightarrow> (int \<times> int) list" where
  "builtRanges evs = List.map_filter (\<lambda>ev. timeRange (called ev)) evs"

definition builtLimits :: "event list \<Rightarrow> int list" where
  "builtLimits evs = List.map_filter (\<lambda>ev. queryLimit (called ev)) evs"

text \<open>
  The three handlers have one shape and differ in the decoder, the builder, the executor and
  the formatter they call. \<open>pipeline\<close> is that shape after the decoding, with the call a
  builder, an executor and a formatter is logged as (\<open>bc\<close>, \<open>xc\<close>, \<open>fc\<close>), what it
  returns (\<open>bo\<close>, \<open>xo\<close>, \<open>fo\<close>) and the prefix of its error (\<open>bp\<close>, \<open>xp\<close>). It is a
  device of the proofs: each handler is shown equal to its instance below.
\<close>

definition pipeline ::
  "('w, 'r) deps \<Rightarrow> string \<Rightarrow> string \<Rightarrow>
   (int \<Rightarrow> int \<Rightarrow> call) \<Rightarrow> (int \<Rightarrow> int \<Rightarrow> error + string) \<Rightarrow> string \<Rightarrow>
   (string \<Rightarrow> call) \<Rightarrow> (string \<Rightarrow> 'w \<Rightarrow> (error + 'r) \<times> 'w) \<Rightarrow> string \<Rightarrow>
   call \<Rightarrow> ('r \<Rightarrow> error + string) \<Rightarrow> ('w, CallToolResult) io" where
  "pipeline d startExpr endExpr bc bo bp xc xo xp fc fo =
     io_bind (io_read (Now d)) (\<lambda>now1.
     io_bind (io_read (Now d)) (\<lambda>now2.
     io_bind
       (if startExpr \<noteq> [] then
          io_bind (io_wrap ''invalid start time: ''
                     (io_call (ParseTime startExpr) (parseTime d startExpr)))
            (\<lambda>startTime. io_return (Unix startTime))
        else io_return (Unix (Add now1 (-1 * Hour)))) (\<lambda>start.
     io_bind
       (if endExpr \<noteq> [] then
          io_bind (io_wrap ''invalid end time: ''
                     (io_call (ParseTime endExpr) (parseTime d endExpr)))
            (\<lambda>endTime. io_return (Unix endTime))
        else io_return (Unix now2)) (\<lambda>end.
     io_bind (io_wrap bp (io_call_pure (bc start end) (bo start end))) (\<lambda>url.
     io_bind (io_wrap xp (io_call (xc url) (xo url))) (\<lambda>result.
     io_bind (io_wrap ''failed to format results: '' (io_call_pure fc (fo result)))
       (\<lambda>formattedResult.
     io_return \<lparr>Content = [\<lparr>Type = ''text'', Text = formattedResult\<rparr>]\<rparr>)))))))"

section \<open>Decimal numerals\<close>

text \<open>
  Modelled from the spec: the decimal text of an integer and its reading, which the time
  expression grammar (\<open>-<integer><unit>\<close>) and the URL builder (timestamps and limit "as
  strings", "decimal integer") of the specification need; the functions that use them are
  not in the sources.
\<close>

definition isDigit :: "char \<Rightarrow> bool" where
  "isDigit c = (c \<in> set ''0123456789'')"

definition digitValue :: "char \<Rightarrow> int" where
  "digitValue c = int (length (takeWhile (\<lambda>d. d \<noteq> c) ''0123456789''))"

definition digitChar :: "int \<Rightarrow> char" where
  "digitChar i = ''0123456789'' ! nat i"

definition parseNat :: "string \<Rightarrow> int option" where
  "parseNat s =
     (if s \<noteq> [] \<and> list_all isDigit s
      then Some (foldl (\<lambda>acc c. 10 * acc + digitValue c) 0 s)
      else None)"

function showNat :: "int \<Rightarrow> string" where
  "showNat n = (if n < 10 then [digitChar n] else showNat (n div 10) @ [digitChar (n mod 10)])"
  by pat_completeness auto
termination
  by (relation "measure nat") auto

declare showNat.simps [simp del]

definition showInt :: "int \<Rightarrow> string" where
  "showInt i = (if i < 0 then CHR ''-'' # showNat (- i) else showNat i)"

definition parseInt :: "string \<Rightarrow> int option" where
  "parseInt s =
     (case s of
        [] \<Rightarrow> None
      | c # cs \<Rightarrow> if c = CHR ''-'' then map_option uminus (parseNat cs) else parseNat s)"

section \<open>The collaborators that are not in the sources, from the specification\<close>

text \<open>The failures the specification names (section 7).\<close>

datatype failure =
    ArgumentDecodeError
  | InvalidTimeExpression
  | MalformedBaseURL
  | BackendUnreachable
  | BackendHTTPError nat string
  | BackendDecodeError
  | UnsupportedFormat
  | FormatRenderError

subsection \<open>Time expression resolver (specification 4.1)\<close>

text \<open>
  Modelled from the spec: the time parser \<open>parseTime\<close> that the handlers call is not in the
  sources. The specification gives its contract as \<open>resolve(expr, reference)\<close> with three
  grammars tried in order: the literal \<open>now\<close>; a relative offset \<open>-<integer><unit>\<close> with the
  unit one of \<open>s\<close>, \<open>m\<close>, \<open>h\<close>, \<open>d\<close>; an absolute RFC 3339 timestamp, read in UTC when it has
  no zone. Anything else fails with \<open>InvalidTimeExpression\<close>.
\<close>

definition unitSeconds :: "char \<Rightarrow> int option" where
  "unitSeconds u =
     (if u = CHR ''s'' then Some 1
      else if u = CHR ''m'' then Some 60
      else if u = CHR ''h'' then Some 3600
      else if u = CHR ''d'' then Some 86400
      else None)"

definition relativeOffset :: "string \<Rightarrow> Duration option" where
  "relativeOffset expr =
     (case expr of
        [] \<Rightarrow> None
      | sign # rest \<Rightarrow>
          if sign \<noteq> CHR ''-'' \<or> rest = [] then None
          else (case (parseNat (butlast rest), unitSeconds (last rest)) of
                  (Some n, Some secs) \<Rightarrow> Some (n * secs * Second)
                | _ \<Rightarrow> None))"

text \<open>
  Modelled from the spec: the RFC 3339 grammar
  \<open>YYYY-MM-DDTHH:MM:SS[.fraction][Z|+HH:MM|-HH:MM]\<close>, with the calendar checked (months,
  days of the month, leap years), seconds from 00 to 59, the fraction kept to nanoseconds
  and the instant counted from the Unix epoch.
\<close>

definition isLeapYear :: "int \<Rightarrow> bool" where
  "isLeapYear y = (y mod 4 = 0 \<and> (y mod 100 \<noteq> 0 \<or> y mod 400 = 0))"

definition daysInMonth :: "int \<Rightarrow> int \<Rightarrow> int" where
  "daysInMonth y m =
     (if m = 2 then (if isLeapYear y then 29 else 28)
      else if m = 4 \<or> m = 6 \<or> m = 9 \<or> m = 11 then 30
      else 31)"

definition daysFromCivil :: "int \<Rightarrow> int \<Rightarrow> int \<Rightarrow> int" where
  "daysFromCivil y m d =
     (let y' = (if m \<le> 2 then y - 1 else y);
          era = y' div 400;
          yoe = y' - era * 400;
          doy = (153 * (if m > 2 then m - 3 else m + 9) + 2) div 5 + d - 1;
          doe = yoe * 365 + yoe div 4 - yoe div 100 + doy
      in era * 146097 + doe - 719468)"

definition parseField :: "string \<Rightarrow> nat \<Rightarrow> nat \<Rightarrow> int option" where
  "parseField s pos len = parseNat (take len (drop pos s))"

definition parseFraction :: "string \<Rightarrow> (int \<times> string) option" where
  "parseFraction s =
     (case s of
        [] \<Rightarrow> Some (0, s)
      | c # rest \<Rightarrow>
          if c = CHR ''.'' then
            (let digits = takeWhile isDigit rest in
             if digits = [] then None
             else (case parseNat (take 9 (digits @ ''000000000'')) of
                     None \<Rightarrow> None
                   | Some n \<Rightarrow> Some (n, dropWhile isDigit rest)))
          else Some (0, s))"

definition parseZone :: "string \<Rightarrow> int option" where
  "parseZone s =
     (if s = [] \<or> s = ''Z'' \<or> s = ''z'' then Some 0
      else if length s = 6 \<and> (s ! 0 = CHR ''+'' \<or> s ! 0 = CHR ''-'') \<and> s ! 3 = CHR '':'' then
        (case (parseField s 1 2, parseField s 4 2) of
           (Some h, Some m) \<Rightarrow>
             if h \<le> 23 \<and> m \<le> 59
             then Some ((if s ! 0 = CHR ''-'' then -1 else 1) * (h * 3600 + m * 60))
             else None
         | _ \<Rightarrow> None)
      else None)"

definition rfc3339 :: "string \<Rightarrow> Time option" where
  "rfc3339 s =
     (if length s < 19 \<or> s ! 4 \<noteq> CHR ''-'' \<or> s ! 7 \<noteq> CHR ''-''
         \<or> (s ! 10 \<noteq> CHR ''T'' \<and> s ! 10 \<noteq> CHR ''t'')
         \<or> s ! 13 \<noteq> CHR '':'' \<or> s ! 16 \<noteq> CHR '':'' then None
      else
        (case (parseField s 0 4, parseField s 5 2, parseField s 8 2,
               parseField s 11 2, parseField s 14 2, parseField s 17 2,
               parseFraction (drop 19 s)) of
           (Some year, Some month, Some day, Some hour, Some minute, Some sec,
            Some (nanos, zone)) \<Rightarrow>
             (case parseZone zone of
                None \<Rightarrow> None
              | Some offset \<Rightarrow>
                  if 1 \<le> month \<and> month \<le> 12 \<and> 1 \<le> day \<and> day \<le> daysInMonth year month
                     \<and> hour \<le> 23 \<and> minute \<le> 59 \<and> sec \<le> 59
                  then Some (Instant
                    ((daysFromCivil year month day * 86400 + hour * 3600 + minute * 60 + sec
                      - offset) * 1000000000 + nanos))
                  else None)
         | _ \<Rightarrow> None))"

definition resolve :: "string \<Rightarrow> Time \<Rightarrow> failure + Time" where
  "resolve expr reference =
     (if expr = ''now'' then Inr reference
      else (case relativeOffset expr of
              Some d \<Rightarrow> Inr (Add reference (- d))
            | None \<Rightarrow>
                (case rfc3339 expr of
                   Some t \<Rightarrow> Inr t
                 | None \<Rightarrow> Inl InvalidTimeExpression)))"

subsection \<open>URL builder (specification 4.3)\<close>

text \<open>
  Modelled from the spec: the builders \<open>buildLokiQueryURL\<close>, \<open>buildLokiLabelsURL\<close> and
  \<open>buildLokiLabelValuesURL\<close> are not in the sources. The specification gives the path of
  each operation, its query parameters, the start and end bounds as nanoseconds (the
  seconds multiplied by \<open>1_000_000_000\<close>) in decimal, the percent-encoding of the query
  string and of the label name, and the failure \<open>MalformedBaseURL\<close> when the base URL
  does not parse. Which base URLs parse is the platform's URL parser, the parameter
  \<open>parses\<close>.
\<close>

definition unixNanos :: "int \<Rightarrow> int" where
  "unixNanos secs = secs * 1000000000"

definition isUnreserved :: "char \<Rightarrow> bool" where
  "isUnreserved c =
     (c \<in> set ''ABCDEFGHIJKLMNOPQRSTUVWXYZabcdefghijklmnopqrstuvwxyz0123456789-_.~'')"

definition hexDigit :: "nat \<Rightarrow> char" where
  "hexDigit n = ''0123456789ABCDEF'' ! n"

definition percentEncode :: "char \<Rightarrow> string" where
  "percentEncode c =
     (if isUnreserved c then [c]
      else [CHR ''%'', hexDigit (of_char c div 16), hexDigit (of_char c mod 16)])"

definition escape :: "string \<Rightarrow> string" where
  "escape s = concat (map percentEncode s)"

fun encodeQuery :: "(string \<times> string) list \<Rightarrow> string" where
  "encodeQuery [] = []"
| "encodeQuery [(k, v)] = escape k @ ''='' @ escape v"
| "encodeQuery ((k, v) # params) = escape k @ ''='' @ escape v @ ''&'' @ encodeQuery params"

definition buildQueryURL ::
  "(string \<Rightarrow> bool) \<Rightarrow> string \<Rightarrow> string \<Rightarrow> int \<Rightarrow> int \<Rightarrow> int \<Rightarrow> failure + string" where
  "buildQueryURL parses base query start end limit =
     (if \<not> parses base then Inl MalformedBaseURL
      else Inr (base @ ''/loki/api/v1/query_range?'' @
        encodeQuery [(''query'', query),
                     (''start'', showInt (unixNanos start)),
                     (''end'', showInt (unixNanos end)),
                     (''limit'', showInt limit)]))"

definition buildLabelsURL ::
  "(string \<Rightarrow> bool) \<Rightarrow> string \<Rightarrow> int \<Rightarrow> int \<Rightarrow> failure + string" where
  "buildLabelsURL parses base start end =
     (if \<not> parses base then Inl MalformedBaseURL
      else Inr (base @ ''/loki/api/v1/labels?'' @
        encodeQuery [(''start'', showInt (unixNanos start)),
                     (''end'', showInt (unixNanos end))]))"

definition buildLabelValuesURL ::
  "(string \<Rightarrow> bool) \<Rightarrow> string \<Rightarrow> string \<Rightarrow> int \<Rightarrow> int \<Rightarrow> failure + string" where
  "buildLabelValuesURL parses base label start end =
     (if \<not> parses base then Inl MalformedBaseURL
      else Inr (base @ ''/loki/api/v1/label/'' @ escape label @ ''/values?'' @
        encodeQuery [(''start'', showInt (unixNanos start)),
                     (''end'', showInt (unixNanos end))]))"

subsection \<open>Backend query executor (specification 4.4)\<close>

text \<open>
  Modelled from the spec: the executors \<open>executeLokiQuery\<close>, \<open>executeLokiLabelsQuery\<close> and
  \<open>executeLokiLabelValuesQuery\<close> are not in the sources. The specification gives one
  contract for them: a single HTTP GET; bearer-token authorization if the token is
  non-empty, else basic authentication if the username is non-empty, else no authorization
  header; the organization header if the organization is non-empty; \<open>BackendUnreachable\<close>
  when there is no response, \<open>BackendHTTPError\<close> on a status outside 2xx,
  \<open>BackendDecodeError\<close> when the body does not decode. The network is the parameter
  \<open>send\<close>, the JSON decoder the parameter \<open>decode\<close>.
\<close>

datatype credentials = Bearer string | Basic string string

record HTTPRequest =
  verb :: string
  target :: string
  authorization :: "credentials option"
  scopeOrgID :: "string option"

record HTTPResponse =
  status :: nat
  body :: string

definition newRequest :: "string \<Rightarrow> string \<Rightarrow> string \<Rightarrow> string \<Rightarrow> string \<Rightarrow> HTTPRequest" where
  "newRequest url username password token orgID =
     \<lparr>verb = ''GET'', target = url,
      authorization =
        (if token \<noteq> [] then Some (Bearer token)
         else if username \<noteq> [] then Some (Basic username password)
         else None),
      scopeOrgID = (if orgID \<noteq> [] then Some orgID else None)\<rparr>"

definition execute ::
  "(HTTPRequest \<Rightarrow> 'w \<Rightarrow> HTTPResponse option \<times> 'w) \<Rightarrow> (string \<Rightarrow> 'r option) \<Rightarrow>
   string \<Rightarrow> string \<Rightarrow> string \<Rightarrow> string \<Rightarrow> string \<Rightarrow> 'w \<Rightarrow> (failure + 'r) \<times> 'w" where
  "execute send decode url username password token orgID w =
     (case send (newRequest url username password token orgID) w of
        (None, w') \<Rightarrow> (Inl BackendUnreachable, w')
      | (Some response, w') \<Rightarrow>
          if 200 \<le> status response \<and> status response < 300 then
            (case decode (body response) of
               None \<Rightarrow> (Inl BackendDecodeError, w')
             | Some result \<Rightarrow> (Inr result, w'))
          else (Inl (BackendHTTPError (status response) (body response)), w'))"

subsection \<open>Result formatter (specification 4.5)\<close>

text \<open>
  Modelled from the spec: the formatters \<open>formatLokiResults\<close>, \<open>formatLokiLabelsResults\<close> and
  \<open>formatLokiLabelValuesResults\<close> are not in the sources. The specification gives one
  contract, \<open>format(result, mode)\<close>: \<open>raw\<close> is the pretty-printed JSON of the decoded
  structure, \<open>json\<close> its compact single-line JSON, \<open>text\<close> a summary per operation, any
  other mode fails with \<open>UnsupportedFormat\<close>. The decoded structure is a JSON value; the
  members of an object keep their order. Numbers are of a type \<open>'n\<close> that the platform
  prints (\<open>showNum\<close>) and reads (\<open>readNum\<close>). The compact form is modelled in full; the
  pretty-printed and the text renderings are the parameters \<open>renderRaw\<close> and \<open>renderText\<close>.
\<close>

datatype 'n json =
    JNull
  | JBool bool
  | JNumber 'n
  | JString string
  | JArray "'n json list"
  | JObject "(string \<times> 'n json) list"

definition jsonEscape :: "char \<Rightarrow> string" where
  "jsonEscape c =
     (if c = CHR 0x22 then [CHR 0x5C, CHR 0x22]
      else if c = CHR 0x5C then [CHR 0x5C, CHR 0x5C]
      else if of_char c < (32::nat) then
        [CHR 0x5C, CHR ''u'', CHR ''0'', CHR ''0'', hexDigit (of_char c div 16),
         hexDigit (of_char c mod 16)]
      else [c])"

definition formatString :: "string \<Rightarrow> string" where
  "formatString s = CHR 0x22 # concat (map jsonEscape s) @ [CHR 0x22]"

fun formatJSON :: "('n \<Rightarrow> string) \<Rightarrow> 'n json \<Rightarrow> string"
  and formatElements :: "('n \<Rightarrow> string) \<Rightarrow> 'n json list \<Rightarrow> string"
  and formatMembers :: "('n \<Rightarrow> string) \<Rightarrow> (string \<times> 'n json) list \<Rightarrow> string" where
  "formatJSON showNum JNull = ''null''"
| "formatJSON showNum (JBool b) = (if b then ''true'' else ''false'')"
| "formatJSON showNum (JNumber x) = showNum x"
| "formatJSON showNum (JString s) = formatString s"
| "formatJSON showNum (JArray vs) = ''['' @ formatElements showNum vs @ '']''"
| "formatJSON showNum (JObject kvs) = ''{'' @ formatMembers showNum kvs @ ''}''"
| "formatElements showNum [] = []"
| "formatElements showNum [v] = formatJSON showNum v"
| "formatElements showNum (v # vs) = formatJSON showNum v @ '','' @ formatElements showNum vs"
| "formatMembers showNum [] = []"
| "formatMembers showNum [(k, v)] = formatString k @ '':'' @ formatJSON showNum v"
| "formatMembers showNum ((k, v) # kvs) =
     formatString k @ '':'' @ formatJSON showNum v @ '','' @ formatMembers showNum kvs"

definition formatResult ::
  "('n \<Rightarrow> string) \<Rightarrow> ('n json \<Rightarrow> string) \<Rightarrow> ('n json \<Rightarrow> failure + string) \<Rightarrow>
   'n json \<Rightarrow> string \<Rightarrow> failure + string" where
  "formatResult showNum renderRaw renderText result mode =
     (if mode = ''raw'' then Inr (renderRaw result)
      else if mode = ''json'' then Inr (formatJSON showNum result)
      else if mode = ''text'' then renderText result
      else Inl UnsupportedFormat)"

text \<open>
  Modelled from the spec: "parsing it back" is a JSON reader, which is not in the sources
  either. It skips white space between tokens, reads the escapes \<open>\"\<close>, \<open>\\\<close>, \<open>\/\<close>,
  \<open>\b\<close>, \<open>\f\<close>, \<open>\n\<close>, \<open>\r\<close>, \<open>\t\<close> and \<open>\u00XX\<close> below \<open>0x80\<close> (other \<open>\u\<close> escapes are
  outside the model and rejected), and takes a number to be the longest run of the
  characters \<open>0123456789+-.eE\<close>. The recursion is bounded by \<open>fuel\<close>; \<open>parseJSON\<close> gives it
  the length of the text.
\<close>

definition isSpace :: "char \<Rightarrow> bool" where
  "isSpace c = (c = CHR '' '' \<or> c = CHR 0x09 \<or> c = CHR 0x0A \<or> c = CHR 0x0D)"

definition skipWs :: "string \<Rightarrow> string" where
  "skipWs s = dropWhile isSpace s"

definition isNumChar :: "char \<Rightarrow> bool" where
  "isNumChar c = (c \<in> set ''0123456789+-.eE'')"

definition hexValue :: "char \<Rightarrow> nat option" where
  "hexValue c =
     (if c \<in> set ''0123456789ABCDEF''
      then Some (length (takeWhile (\<lambda>d. d \<noteq> c) ''0123456789ABCDEF''))
      else if c \<in> set ''abcdef''
      then Some (10 + length (takeWhile (\<lambda>d. d \<noteq> c) ''abcdef''))
      else None)"

definition unescape :: "char \<Rightarrow> char option" where
  "unescape e =
     (if e = CHR 0x22 \<or> e = CHR 0x5C \<or> e = CHR ''/'' then Some e
      else if e = CHR ''b'' then Some (CHR 0x08)
      else if e = CHR ''f'' then Some (CHR 0x0C)
      else if e = CHR ''n'' then Some (CHR 0x0A)
      else if e = CHR ''r'' then Some (CHR 0x0D)
      else if e = CHR ''t'' then Some (CHR 0x09)
      else None)"

fun parseChars :: "string \<Rightarrow> (string \<times> string) option" where
  "parseChars [] = None"
| "parseChars (c # cs) =
     (if c = CHR 0x22 then Some ([], cs)
      else if c = CHR 0x5C then
        (case cs of
           [] \<Rightarrow> None
         | e # cs1 \<Rightarrow>
             if e = CHR ''u'' then
               (case cs1 of
                  h1 # h2 # h3 # h4 # cs2 \<Rightarrow>
                    (case (hexValue h1, hexValue h2, hexValue h3, hexValue h4) of
                       (Some a, Some b, Some hi, Some lo) \<Rightarrow>
                         if a = 0 \<and> b = 0 \<and> hi < 8 then
                           (case parseChars cs2 of
                              None \<Rightarrow> None
                            | Some (s, rest) \<Rightarrow> Some (char_of (hi * 16 + lo) # s, rest))
                         else None
                     | _ \<Rightarrow> None)
                | _ \<Rightarrow> None)
             else
               (case unescape e of
                  None \<Rightarrow> None
                | Some x \<Rightarrow>
                    (case parseChars cs1 of
                       None \<Rightarrow> None
                     | Some (s, rest) \<Rightarrow> Some (x # s, rest))))
      else if of_char c < (32::nat) then None
      else (case parseChars cs of
              None \<Rightarrow> None
            | Some (s, rest) \<Rightarrow> Some (c # s, rest)))"

definition parseNumber :: "(string \<Rightarrow> 'n option) \<Rightarrow> string \<Rightarrow> ('n json \<times> string) option" where
  "parseNumber readNum s =
     (let token = takeWhile isNumChar s in
      if token = [] then None
      else (case readNum token of
              None \<Rightarrow> None
            | Some x \<Rightarrow> Some (JNumber x, dropWhile isNumChar s)))"

fun parseValue :: "(string \<Rightarrow> 'n option) \<Rightarrow> nat \<Rightarrow> string \<Rightarrow> ('n json \<times> string) option"
  and parseElements ::
    "(string \<Rightarrow> 'n option) \<Rightarrow> nat \<Rightarrow> string \<Rightarrow> ('n json list \<times> string) option"
  and parseMembers ::
    "(string \<Rightarrow> 'n option) \<Rightarrow> nat \<Rightarrow> string \<Rightarrow> ((string \<times> 'n json) list \<times> string) option" where
  "parseValue readNum 0 s = None"
| "parseValue readNum (Suc fuel) s =
     (case skipWs s of
        [] \<Rightarrow> None
      | c # cs \<Rightarrow>
          if c = CHR ''['' then
            (case skipWs cs of
               [] \<Rightarrow> None
             | c1 # cs1 \<Rightarrow>
                 if c1 = CHR '']'' then Some (JArray [], cs1)
                 else (case parseElements readNum fuel cs of
                         None \<Rightarrow> None
                       | Some (vs, rest) \<Rightarrow> Some (JArray vs, rest)))
          else if c = CHR ''{'' then
            (case skipWs cs of
               [] \<Rightarrow> None
             | c1 # cs1 \<Rightarrow>
                 if c1 = CHR ''}'' then Some (JObject [], cs1)
                 else (case parseMembers readNum fuel cs of
                         None \<Rightarrow> None
                       | Some (kvs, rest) \<Rightarrow> Some (JObject kvs, rest)))
          else if c = CHR 0x22 then
            (case parseChars cs of
               None \<Rightarrow> None
             | Some (str, rest) \<Rightarrow> Some (JString str, rest))
          else if take 4 (c # cs) = ''null'' then Some (JNull, drop 4 (c # cs))
          else if take 4 (c # cs) = ''true'' then Some (JBool True, drop 4 (c # cs))
          else if take 5 (c # cs) = ''false'' then Some (JBool False, drop 5 (c # cs))
          else parseNumber readNum (c # cs))"
| "parseElements readNum 0 s = None"
| "parseElements readNum (Suc fuel) s =
     (case parseValue readNum fuel s of
        None \<Rightarrow> None
      | Some (v, rest) \<Rightarrow>
          (case skipWs rest of
             [] \<Rightarrow> None
           | c # cs \<Rightarrow>
               if c = CHR '','' then
                 (case parseElements readNum fuel cs of
                    None \<Rightarrow> None
                  | Some (vs, rest') \<Rightarrow> Some (v # vs, rest'))
               else if c = CHR '']'' then Some ([v], cs)
               else None))"
| "parseMembers readNum 0 s = None"
| "parseMembers readNum (Suc fuel) s =
     (case skipWs s of
        [] \<Rightarrow> None
      | q # cs0 \<Rightarrow>
          if q \<noteq> CHR 0x22 then None
          else
            (case parseChars cs0 of
               None \<Rightarrow> None
             | Some (k, rest0) \<Rightarrow>
                 (case skipWs rest0 of
                    [] \<Rightarrow> None
                  | colon # rest1 \<Rightarrow>
                      if colon \<noteq> CHR '':'' then None
                      else
                        (case parseValue readNum fuel rest1 of
                           None \<Rightarrow> None
                         | Some (v, rest) \<Rightarrow>
                             (case skipWs rest of
                                [] \<Rightarrow> None
                              | c # cs \<Rightarrow>
                                  if c = CHR '','' then
                                    (case parseMembers readNum fuel cs of
                                       None \<Rightarrow> None
                                     | Some (kvs, rest') \<Rightarrow> Some ((k, v) # kvs, rest'))
                                  else if c = CHR ''}'' then Some ([(k, v)], cs)
                                  else None)))))"

definition parseJSON :: "(string \<Rightarrow> 'n option) \<Rightarrow> string \<Rightarrow> 'n json option" where
  "parseJSON readNum s =
     (case parseValue readNum (length s) s of
        None \<Rightarrow> None
      | Some (v, rest) \<Rightarrow> if skipWs rest = [] then Some v else None)"

text \<open>
  What is asked of the platform's number printing and reading: a number prints as a
  non-empty run of number characters and reads back as itself. \<open>cost\<close> is the fuel the
  reader needs for a value, \<open>delimited\<close> says that what follows a value cannot continue a
  number.
\<close>

definition numberCodec :: "('n \<Rightarrow> string) \<Rightarrow> (string \<Rightarrow> 'n option) \<Rightarrow> bool" where
  "numberCodec showNum readNum =
     (\<forall>x. showNum x \<noteq> [] \<and> list_all isNumChar (showNum x) \<and> readNum (showNum x) = Some x)"

fun cost :: "'n json \<Rightarrow> nat"
  and costs :: "'n json list \<Rightarrow> nat"
  and costm :: "(string \<times> 'n json) list \<Rightarrow> nat" where
  "cost (JArray vs) = Suc (costs vs)"
| "cost (JObject kvs) = Suc (costm kvs)"
| "cost v = 1"
| "costs [] = 0"
| "costs (v # vs) = Suc (cost v + costs vs)"
| "costm [] = 0"
| "costm ((k, v) # kvs) = Suc (cost v + costm kvs)"

definition delimited :: "string \<Rightarrow> bool" where
  "delimited rest = (case rest of [] \<Rightarrow> True | c # cs \<Rightarrow> c = CHR '','' \<or> c = CHR '']'' \<or> c = CHR ''}'')"

section \<open>A concrete environment\<close>

text \<open>
  A small environment on which the handlers can be run: the world is a counter of clock
  readings, the clock starts at 1700000000.5 seconds and advances by a microsecond at
  each reading, the decoders return the request \<open>req\<close> with the query or label taken from
  the raw arguments and reject empty arguments, the time parser knows \<open>now\<close> only, the
  builder, executor and formatter are stubs, and \<open>int(f)\<close> saturates out of range.
\<close>

definition exampleClock :: "nat \<Rightarrow> Time" where
  "exampleClock n = Instant (1700000000500000000 + 1000 * int n)"

definition exampleDeps :: "LokiLabelNamesRequest \<Rightarrow> real \<Rightarrow> (nat, string) deps" where
  "exampleDeps req limitArg =
     \<lparr>VerifyAndUnmarshalQuery = (\<lambda>raw.
        if raw = [] then Inl (Error ''missing required field'')
        else Inr (LokiLabelNamesRequest.extend req (LokiQueryRequest.fields raw limitArg))),
      VerifyAndUnmarshalLabelNames = (\<lambda>raw. Inr req),
      VerifyAndUnmarshalLabelValues = (\<lambda>raw.
        if raw = [] then Inl (Error ''missing required field'')
        else Inr (LokiLabelNamesRequest.extend req (LokiLabelValuesRequest.fields raw))),
      Getenv = (\<lambda>key. []),
      Now = (\<lambda>n. (exampleClock n, Suc n)),
      intImpl = (\<lambda>f. if f < 0 then - (2 ^ 63) else 2 ^ 63 - 1),
      parseTime = (\<lambda>expr n.
        (if expr = ''now'' then Inr (exampleClock n)
         else Inl (Error ''unsupported time format''), Suc n)),
      buildLokiQueryURL = (\<lambda>lokiURL query start end limit. Inr (lokiURL @ ''/query_range'')),
      buildLokiLabelsURL = (\<lambda>lokiURL start end. Inr (lokiURL @ ''/labels'')),
      buildLokiLabelValuesURL = (\<lambda>lokiURL label start end. Inr (lokiURL @ ''/values'')),
      executeLokiQuery = (\<lambda>url username password token orgID n. (Inr ''{}'', n)),
      executeLokiLabelsQuery = (\<lambda>url username password token orgID n. (Inr ''{}'', n)),
      executeLokiLabelValuesQuery = (\<lambda>url username password token orgID n. (Inr ''{}'', n)),
      formatLokiResults = (\<lambda>result format. Inr result),
      formatLokiLabelsResults = (\<lambda>result format. Inr result),
      formatLokiLabelValuesResults = (\<lambda>label result format. Inr result)\<rparr>"

definition exampleRequest :: "string \<Rightarrow> string \<Rightarrow> LokiLabelNamesRequest" where
  "exampleRequest startExpr endExpr =
     \<lparr>URL = [], Username = [], Password = [], Token = [], Start = startExpr, End = endExpr,
      Org = [], Format = []\<rparr>"

definition exampleCredentials :: LokiLabelNamesRequest where
  "exampleCredentials =
     (exampleRequest [] [])\<lparr>Username := ''admin'', Password := ''secret'', Token := ''tok''\<rparr>"

definition exampleRun ::
  "operation \<Rightarrow> string \<Rightarrow> string \<Rightarrow> real \<Rightarrow> (error + CallToolResult) \<times> nat \<times> event list" where
  "exampleRun op startExpr endExpr limitArg =
     handler op (exampleDeps (exampleRequest startExpr endExpr) limitArg) ''up'' (0, [])"

section \<open>Properties of the handlers\<close>

subsection \<open>Configuration precedence\<close>

text \<open>
  C1. The configuration resolver returns the explicit value when it is non-empty, otherwise
  the value of the named environment variable when that is non-empty, otherwise the
  fallback.
\<close>

theorem getEnvOrDefault_precedence:
  "getEnvOrDefault getenv explicit envVar fallback =
     (if explicit \<noteq> [] then explicit
      else if getenv envVar \<noteq> [] then getenv envVar
      else fallback)
   \<and> getEnvOrDefault (\<lambda>k. if k = envVar then ''E'' else []) [] envVar ''F'' = ''E''
   \<and> getEnvOrDefault (\<lambda>k. if k = envVar then ''E'' else []) ''X'' envVar ''F'' = ''X''
   \<and> getEnvOrDefault (\<lambda>k. []) [] envVar ''F'' = ''F''"
  by (simp add: getEnvOrDefault_def Let_def)

subsection \<open>The handlers as instances of the pipeline\<close>

lemmas io_defs =
  io_return_def io_bind_def io_lift_def io_read_def io_call_def io_call_pure_def io_wrap_def

lemmas obs_defs = parsedExprs_def builtRanges_def builtLimits_def List.map_filter_def

lemma Unix_Add_Hour: "Unix (Add t (- Hour)) = Unix t - 3600"
  by (simp add: Unix_def Add_def Hour_def Second_def)

lemma Unix_floor: "Unix t * 1000000000 \<le> UnixNano t \<and> UnixNano t < Unix t * 1000000000 + 1000000000"
  unfolding Unix_def by presburger

lemma io_bind_lift_Inr: "io_bind (io_lift (Inr a)) f = f a"
  by (simp add: io_bind_def io_lift_def)

lemma query_pipeline:
  "HandleLokiQueryProtocol d raw =
     io_bind (io_lift (VerifyAndUnmarshalQuery d raw)) (\<lambda>req.
       pipeline d (Start req) (End req)
         (\<lambda>s e. BuildLokiQueryURL (getEnvOrDefault (Getenv d) (URL req) EnvLokiURL DefaultLokiURL)
            (Query req) s e (if Limit req > 0 then go_int (intImpl d) (Limit req) else 100))
         (\<lambda>s e. buildLokiQueryURL d (getEnvOrDefault (Getenv d) (URL req) EnvLokiURL DefaultLokiURL)
            (Query req) s e (if Limit req > 0 then go_int (intImpl d) (Limit req) else 100))
         ''failed to build query URL: ''
         (\<lambda>url. ExecuteLokiQuery url (getEnvOrDefault (Getenv d) (Username req) EnvLokiUsername [])
            (getEnvOrDefault (Getenv d) (Password req) EnvLokiPassword [])
            (getEnvOrDefault (Getenv d) (Token req) EnvLokiToken [])
            (getEnvOrDefault (Getenv d) (Org req) EnvLokiOrgID []))
         (\<lambda>url. executeLokiQuery d url (getEnvOrDefault (Getenv d) (Username req) EnvLokiUsername [])
            (getEnvOrDefault (Getenv d) (Password req) EnvLokiPassword [])
            (getEnvOrDefault (Getenv d) (Token req) EnvLokiToken [])
            (getEnvOrDefault (Getenv d) (Org req) EnvLokiOrgID []))
         ''query execution failed: ''
         (FormatLokiResults (if Format req \<noteq> [] then Format req else ''raw''))
         (\<lambda>result. formatLokiResults d result (if Format req \<noteq> [] then Format req else ''raw'')))"
  by (simp add: HandleLokiQueryProtocol_def pipeline_def Let_def cong: if_cong)

lemma label_names_pipeline:
  "HandleLokiLabelNamesProtocol d raw =
     io_bind (io_lift (VerifyAndUnmarshalLabelNames d raw)) (\<lambda>req.
       pipeline d (Start req) (End req)
         (\<lambda>s e. BuildLokiLabelsURL (getEnvOrDefault (Getenv d) (URL req) EnvLokiURL DefaultLokiURL) s e)
         (\<lambda>s e. buildLokiLabelsURL d (getEnvOrDefault (Getenv d) (URL req) EnvLokiURL DefaultLokiURL) s e)
         ''failed to build labels URL: ''
         (\<lambda>url. ExecuteLokiLabelsQuery url (getEnvOrDefault (Getenv d) (Username req) EnvLokiUsername [])
            (getEnvOrDefault (Getenv d) (Password req) EnvLokiPassword [])
            (getEnvOrDefault (Getenv d) (Token req) EnvLokiToken [])
            (getEnvOrDefault (Getenv d) (Org req) EnvLokiOrgID []))
         (\<lambda>url. executeLokiLabelsQuery d url (getEnvOrDefault (Getenv d) (Username req) EnvLokiUsername [])
            (getEnvOrDefault (Getenv d) (Password req) EnvLokiPassword [])
            (getEnvOrDefault (Getenv d) (Token req) EnvLokiToken [])
            (getEnvOrDefault (Getenv d) (Org req) EnvLokiOrgID []))
         ''labels query execution failed: ''
         (FormatLokiLabelsResults (if Format req \<noteq> [] then Format req else ''raw''))
         (\<lambda>result. formatLokiLabelsResults d result (if Format req \<noteq> [] then Format req else ''raw'')))"
  by (simp add: HandleLokiLabelNamesProtocol_def pipeline_def Let_def cong: if_cong)

lemma label_values_pipeline:
  "HandleLokiLabelValuesProtocol d raw =
     io_bind (io_lift (VerifyAndUnmarshalLabelValues d raw)) (\<lambda>req.
       pipeline d (Start req) (End req)
         (\<lambda>s e. BuildLokiLabelValuesURL (getEnvOrDefault (Getenv d) (URL req) EnvLokiURL DefaultLokiURL)
            (Label req) s e)
         (\<lambda>s e. buildLokiLabelValuesURL d (getEnvOrDefault (Getenv d) (URL req) EnvLokiURL DefaultLokiURL)
            (Label req) s e)
         ''failed to build label values URL: ''
         (\<lambda>url. ExecuteLokiLabelValuesQuery url (getEnvOrDefault (Getenv d) (Username req) EnvLokiUsername [])
            (getEnvOrDefault (Getenv d) (Password req) EnvLokiPassword [])
            (getEnvOrDefault (Getenv d) (Token req) EnvLokiToken [])
            (getEnvOrDefault (Getenv d) (Org req) EnvLokiOrgID []))
         (\<lambda>url. executeLokiLabelValuesQuery d url (getEnvOrDefault (Getenv d) (Username req) EnvLokiUsername [])
            (getEnvOrDefault (Getenv d) (Password req) EnvLokiPassword [])
            (getEnvOrDefault (Getenv d) (Token req) EnvLokiToken [])
            (getEnvOrDefault (Getenv d) (Org req) EnvLokiOrgID []))
         ''label values query execution failed: ''
         (FormatLokiLabelValuesResults (Label req) (if Format req \<noteq> [] then Format req else ''raw''))
         (\<lambda>result. formatLokiLabelValuesResults d (Label req) result
            (if Format req \<noteq> [] then Format req else ''raw'')))"
  by (simp add: HandleLokiLabelValuesProtocol_def pipeline_def Let_def cong: if_cong)

text \<open>Every run of an operation whose arguments decode is a run of the pipeline.\<close>

lemma handler_is_pipeline:
  assumes "decodeArguments d op raw = Inr req"
  shows "\<exists>bc bo bp xc xo xp fc fo.
           handler op d raw = pipeline d (Start req) (End req) bc bo bp xc xo xp fc fo
         \<and> (\<forall>s e. timeRange (bc s e) = Some (s, e) \<and> isBuild (bc s e))
         \<and> (\<forall>u. isExecute (xc u))
         \<and> isFormat fc \<and> (\<forall>result. formatOutcome d fc result = Some (fo result))
         \<and> (\<forall>u. executeArgs (xc u) =
               Some (u, getEnvOrDefault (Getenv d) (Username req) EnvLokiUsername [],
                     getEnvOrDefault (Getenv d) (Password req) EnvLokiPassword [],
                     getEnvOrDefault (Getenv d) (Token req) EnvLokiToken [],
                     getEnvOrDefault (Getenv d) (Org req) EnvLokiOrgID []))"
proof (cases op)
  case loki_query
  with assms obtain q where q: "VerifyAndUnmarshalQuery d raw = Inr q"
    and r: "req = LokiLabelNamesRequest.truncate q"
    by (cases "VerifyAndUnmarshalQuery d raw") auto
  show ?thesis
  proof -
    have sr: "Start req = Start q" "End req = End q" "Username req = Username q"
      "Password req = Password q" "Token req = Token q" "Org req = Org q"
      by (simp_all add: r LokiLabelNamesRequest.truncate_def)
    show ?thesis
      unfolding loki_query handler.simps query_pipeline q io_bind_lift_Inr sr
      by (intro exI conjI, rule refl) simp_all
  qed
next
  case loki_label_names
  with assms have q: "VerifyAndUnmarshalLabelNames d raw = Inr req" by simp
  show ?thesis
    unfolding loki_label_names handler.simps label_names_pipeline q io_bind_lift_Inr
    by (intro exI conjI, rule refl) simp_all
next
  case loki_label_values
  with assms obtain q where q: "VerifyAndUnmarshalLabelValues d raw = Inr q"
    and r: "req = LokiLabelNamesRequest.truncate q"
    by (cases "VerifyAndUnmarshalLabelValues d raw") auto
  show ?thesis
  proof -
    have sr: "Start req = Start q" "End req = End q" "Username req = Username q"
      "Password req = Password q" "Token req = Token q" "Org req = Org q"
      by (simp_all add: r LokiLabelNamesRequest.truncate_def)
    show ?thesis
      unfolding loki_label_values handler.simps label_values_pipeline q io_bind_lift_Inr sr
      by (intro exI conjI, rule refl) simp_all
  qed
qed

lemma isBuild_kind:
  "isBuild c \<Longrightarrow>
     parsedExpr c = None \<and> executeArgs c = None
     \<and> \<not> isParse c \<and> \<not> isExecute c \<and> \<not> isFormat c"
  by (cases c) simp_all

lemma isExecute_kind:
  "isExecute c \<Longrightarrow>
     parsedExpr c = None \<and> timeRange c = None \<and> queryLimit c = None
     \<and> \<not> isParse c \<and> \<not> isBuild c \<and> \<not> isFormat c"
  by (cases c) simp_all

lemma isFormat_kind:
  "isFormat c \<Longrightarrow>
     parsedExpr c = None \<and> timeRange c = None \<and> queryLimit c = None \<and> executeArgs c = None
     \<and> \<not> isParse c \<and> \<not> isBuild c \<and> \<not> isExecute c"
  by (cases c) simp_all

lemma decode_failure:
  assumes "decodeArguments d op raw = Inl e"
  shows "handler op d raw s = (Inl e, s)"
proof (cases op)
  case loki_query
  with assms have "VerifyAndUnmarshalQuery d raw = Inl e"
    by (cases "VerifyAndUnmarshalQuery d raw") auto
  then show ?thesis
    by (simp add: loki_query HandleLokiQueryProtocol_def io_bind_def io_lift_def)
next
  case loki_label_names
  with assms have "VerifyAndUnmarshalLabelNames d raw = Inl e" by simp
  then show ?thesis
    by (simp add: loki_label_names HandleLokiLabelNamesProtocol_def io_bind_def io_lift_def)
next
  case loki_label_values
  with assms have "VerifyAndUnmarshalLabelValues d raw = Inl e"
    by (cases "VerifyAndUnmarshalLabelValues d raw") auto
  then show ?thesis
    by (simp add: loki_label_values HandleLokiLabelValuesProtocol_def io_bind_def io_lift_def)
qed

lemmas example_defs =
  HandleLokiQueryProtocol_def HandleLokiLabelNamesProtocol_def
  HandleLokiLabelValuesProtocol_def io_defs exampleDeps_def exampleRequest_def
  exampleClock_def getEnvOrDefault_def Let_def
  LokiLabelNamesRequest.extend_def LokiLabelNamesRequest.truncate_def
  LokiQueryRequest.fields_def LokiLabelValuesRequest.fields_def
  EnvLokiURL_def DefaultLokiURL_def Unix_def Add_def Hour_def Second_def

subsection \<open>Runs of the concrete environment\<close>

lemma example_decode:
  "decodeArguments (exampleDeps req limitArg) op ''up'' = Inr req"
  by (cases op)
    (simp_all add: exampleDeps_def LokiLabelNamesRequest.extend_def
       LokiLabelNamesRequest.truncate_def)

lemma example_now: "Now (exampleDeps req limitArg) n = (exampleClock n, Suc n)"
  by (simp add: exampleDeps_def)

lemma example_run_collapse:
  "handler op (exampleDeps (exampleRequest startExpr endExpr) limitArg) ''up'' (0, []) =
     (fst (exampleRun op startExpr endExpr limitArg),
      fst (snd (exampleRun op startExpr endExpr limitArg)),
      snd (snd (exampleRun op startExpr endExpr limitArg)))"
  by (simp add: exampleRun_def)

lemma example_query_run:
  "exampleRun loki_query [] [] 5 =
     (Inr \<lparr>Content = [\<lparr>Type = ''text'', Text = ''{}''\<rparr>]\<rparr>, 2,
      [\<lparr>called = BuildLokiQueryURL ''http://localhost:3100'' ''up'' 1699996400 1700000000 5,
        failed = False\<rparr>,
       \<lparr>called = ExecuteLokiQuery ''http://localhost:3100/query_range'' [] [] [] [],
        failed = False\<rparr>,
       \<lparr>called = FormatLokiResults ''raw'', failed = False\<rparr>])"
  by (simp add: exampleRun_def example_defs go_int_def float_trunc_def)

lemma example_invalid_start_run:
  "exampleRun loki_label_names ''tomorrow'' [] 0 =
     (Inl (Error ''invalid start time: unsupported time format''), 3,
      [\<lparr>called = ParseTime ''tomorrow'', failed = True\<rparr>])"
  by (simp add: exampleRun_def example_defs Errorf_def)

lemma example_limit_run:
  "exampleRun loki_query [] [] (59 / 10) =
     (Inr \<lparr>Content = [\<lparr>Type = ''text'', Text = ''{}''\<rparr>]\<rparr>, 2,
      [\<lparr>called = BuildLokiQueryURL ''http://localhost:3100'' ''up'' 1699996400 1700000000 5,
        failed = False\<rparr>,
       \<lparr>called = ExecuteLokiQuery ''http://localhost:3100/query_range'' [] [] [] [],
        failed = False\<rparr>,
       \<lparr>called = FormatLokiResults ''raw'', failed = False\<rparr>])"
  by (simp add: exampleRun_def example_defs go_int_def float_trunc_def)

lemma example_query_decode:
  "VerifyAndUnmarshalQuery (exampleDeps req limitArg) ''up'' =
     Inr (LokiLabelNamesRequest.extend req (LokiQueryRequest.fields ''up'' limitArg))"
  by (simp add: exampleDeps_def)

lemma example_big_limit_run:
  "exampleRun loki_query [] [] 10000000000000000000 =
     (Inr \<lparr>Content = [\<lparr>Type = ''text'', Text = ''{}''\<rparr>]\<rparr>, 2,
      [\<lparr>called = BuildLokiQueryURL ''http://localhost:3100'' ''up'' 1699996400 1700000000
          9223372036854775807,
        failed = False\<rparr>,
       \<lparr>called = ExecuteLokiQuery ''http://localhost:3100/query_range'' [] [] [] [],
        failed = False\<rparr>,
       \<lparr>called = FormatLokiResults ''raw'', failed = False\<rparr>])"
  by (simp add: exampleRun_def example_defs go_int_def float_trunc_def)

lemma example_now_now_run:
  "exampleRun loki_label_values ''now'' ''now'' 0 =
     (Inr \<lparr>Content = [\<lparr>Type = ''text'', Text = ''{}''\<rparr>]\<rparr>, 4,
      [\<lparr>called = ParseTime ''now'', failed = False\<rparr>,
       \<lparr>called = ParseTime ''now'', failed = False\<rparr>,
       \<lparr>called = BuildLokiLabelValuesURL ''http://localhost:3100'' ''up'' 1700000000 1700000000,
        failed = False\<rparr>,
       \<lparr>called = ExecuteLokiLabelValuesQuery ''http://localhost:3100/values'' [] [] [] [],
        failed = False\<rparr>,
       \<lparr>called = FormatLokiLabelValuesResults ''up'' ''raw'', failed = False\<rparr>])"
  by (simp add: exampleRun_def example_defs)

subsection \<open>Default time range\<close>

lemma pipeline_default_range:
  assumes "Now d w = (now1, w1)" and "Now d w1 = (now2, w2)"
      and "pipeline d startExpr endExpr bc bo bp xc xo xp fc fo (w, []) = (res, w', evs)"
      and "\<forall>s e. timeRange (bc s e) = Some (s, e) \<and> isBuild (bc s e)"
      and "\<forall>u. isExecute (xc u)" and "isFormat fc"
  shows "(startExpr = [] \<longrightarrow>
            parsedExprs evs = (if endExpr = [] then [] else [endExpr]) \<and>
            (\<forall>r\<in>set (builtRanges evs). fst r = Unix (Add now1 (- Hour))))
       \<and> (endExpr = [] \<longrightarrow>
            parsedExprs evs = (if startExpr = [] then [] else [startExpr]) \<and>
            (\<forall>r\<in>set (builtRanges evs). snd r = Unix now2))
       \<and> (startExpr = [] \<and> endExpr = [] \<longrightarrow>
            builtRanges evs = [(Unix (Add now1 (- Hour)), Unix now2)])"
proof -
  have k: "\<And>s e. timeRange (bc s e) = Some (s, e)" "\<And>s e. parsedExpr (bc s e) = None"
    "\<And>u. timeRange (xc u) = None" "\<And>u. parsedExpr (xc u) = None"
    "timeRange fc = None" "parsedExpr fc = None"
    using assms(4-6) isBuild_kind isExecute_kind isFormat_kind by blast+
  show ?thesis
    using assms(1-3)
    by (auto simp add: k pipeline_def io_defs obs_defs split: sum.splits prod.splits if_splits)
qed

text \<open>
  C2. For each of the three operations, when the start (respectively end) argument is absent
  or empty the time parser is not called for it and the default bound is passed to the URL
  builder: the start is the Unix second of the first clock reading minus one hour, which is
  3600 seconds before the second of that reading, and the end is the Unix second of the
  second clock reading. With both absent the parser is not called at all and the range
  built is exactly that pair.
\<close>

theorem default_time_range:
  assumes "decodeArguments d op raw = Inr req"
      and "Now d w = (now1, w1)" and "Now d w1 = (now2, w2)"
      and "handler op d raw (w, []) = (res, w', evs)"
  shows "(Start req = [] \<longrightarrow>
            parsedExprs evs = (if End req = [] then [] else [End req]) \<and>
            (\<forall>r\<in>set (builtRanges evs). fst r = Unix (Add now1 (- Hour))))
       \<and> (End req = [] \<longrightarrow>
            parsedExprs evs = (if Start req = [] then [] else [Start req]) \<and>
            (\<forall>r\<in>set (builtRanges evs). snd r = Unix now2))
       \<and> (Start req = [] \<and> End req = [] \<longrightarrow>
            builtRanges evs = [(Unix (Add now1 (- Hour)), Unix now2)])
       \<and> Unix (Add now1 (- Hour)) = Unix now1 - 3600"
proof -
  from handler_is_pipeline [OF assms(1)] obtain bc bo bp xc xo xp fc fo where
    p: "handler op d raw = pipeline d (Start req) (End req) bc bo bp xc xo xp fc fo"
    and k: "\<forall>s e. timeRange (bc s e) = Some (s, e) \<and> isBuild (bc s e)"
      "\<forall>u. isExecute (xc u)" "isFormat fc"
    by blast
  from assms(4) have run:
    "pipeline d (Start req) (End req) bc bo bp xc xo xp fc fo (w, []) = (res, w', evs)"
    by (simp add: p)
  from pipeline_default_range [OF assms(2) assms(3) run k] Unix_Add_Hour
  show ?thesis by simp
qed

theorem default_time_range_witness:
  "parsedExprs (snd (snd (exampleRun loki_query [] [] 5))) = []
   \<and> builtRanges (snd (snd (exampleRun loki_query [] [] 5))) = [(1699996400, 1700000000)]"
  using default_time_range [OF
      example_decode [where req = "exampleRequest [] []" and limitArg = 5 and op = loki_query]
      example_now example_now example_run_collapse]
  by (simp add: exampleRequest_def exampleClock_def Unix_def Add_def Hour_def Second_def)

subsection \<open>Invalid time expressions\<close>

lemma pipeline_invalid_time:
  assumes "Now d w = (now1, w1)" and "Now d w1 = (now2, w2)"
      and "pipeline d startExpr endExpr bc bo bp xc xo xp fc fo (w, []) = (res, w', evs)"
      and "\<forall>s e. timeRange (bc s e) = Some (s, e) \<and> isBuild (bc s e)"
      and "\<forall>u. isExecute (xc u)" and "isFormat fc"
  shows "(\<forall>e w3. startExpr \<noteq> [] \<and> parseTime d startExpr w2 = (Inl e, w3) \<longrightarrow>
            res = Inl (Errorf ''invalid start time: '' e)
            \<and> map called evs = [ParseTime startExpr])
       \<and> (\<forall>e w4. endExpr \<noteq> []
            \<and> (startExpr = [] \<or> \<not> isl (fst (parseTime d startExpr w2)))
            \<and> parseTime d endExpr
                 (if startExpr = [] then w2 else snd (parseTime d startExpr w2)) = (Inl e, w4) \<longrightarrow>
            res = Inl (Errorf ''invalid end time: '' e)
            \<and> map called evs =
                (if startExpr = [] then [] else [ParseTime startExpr]) @ [ParseTime endExpr])
       \<and> ((\<exists>ev\<in>set evs. isParse (called ev) \<and> failed ev) \<longrightarrow>
            isl res \<and> (\<forall>ev\<in>set evs. \<not> isBuild (called ev) \<and> \<not> isExecute (called ev)))"
proof -
  have k: "\<And>s e. \<not> isParse (bc s e)" "\<And>u. \<not> isParse (xc u)" "\<not> isParse fc"
    using assms(4-6) isBuild_kind isExecute_kind isFormat_kind by blast+
  show ?thesis
    using assms(1-3)
    by (auto simp add: k pipeline_def io_defs split: sum.splits prod.splits if_splits)
qed

text \<open>
  C3. For each of the three operations, when the start argument is non-empty and the time
  parser rejects it, or the start is resolved and the end argument is non-empty and
  rejected, the handler returns the error \<open>invalid start time: ...\<close> or
  \<open>invalid end time: ...\<close>, and the calls it made are the calls of the parser only: no URL
  is built, with the default range or otherwise, and no executor is called.
\<close>

theorem invalid_time_is_hard_error:
  assumes "decodeArguments d op raw = Inr req"
      and "Now d w = (now1, w1)" and "Now d w1 = (now2, w2)"
      and "handler op d raw (w, []) = (res, w', evs)"
  shows "(\<forall>e w3. Start req \<noteq> [] \<and> parseTime d (Start req) w2 = (Inl e, w3) \<longrightarrow>
            res = Inl (Errorf ''invalid start time: '' e)
            \<and> map called evs = [ParseTime (Start req)])
       \<and> (\<forall>e w4. End req \<noteq> []
            \<and> (Start req = [] \<or> \<not> isl (fst (parseTime d (Start req) w2)))
            \<and> parseTime d (End req)
                 (if Start req = [] then w2 else snd (parseTime d (Start req) w2)) = (Inl e, w4) \<longrightarrow>
            res = Inl (Errorf ''invalid end time: '' e)
            \<and> map called evs =
                (if Start req = [] then [] else [ParseTime (Start req)]) @ [ParseTime (End req)])
       \<and> ((\<exists>ev\<in>set evs. isParse (called ev) \<and> failed ev) \<longrightarrow>
            isl res \<and> (\<forall>ev\<in>set evs. \<not> isBuild (called ev) \<and> \<not> isExecute (called ev)))"
proof -
  from handler_is_pipeline [OF assms(1)] obtain bc bo bp xc xo xp fc fo where
    p: "handler op d raw = pipeline d (Start req) (End req) bc bo bp xc xo xp fc fo"
    and k: "\<forall>s e. timeRange (bc s e) = Some (s, e) \<and> isBuild (bc s e)"
      "\<forall>u. isExecute (xc u)" "isFormat fc"
    by blast
  from assms(4) have run:
    "pipeline d (Start req) (End req) bc bo bp xc xo xp fc fo (w, []) = (res, w', evs)"
    by (simp add: p)
  from pipeline_invalid_time [OF assms(2) assms(3) run k]
  show ?thesis .
qed

theorem invalid_time_is_hard_error_witness:
  "fst (exampleRun loki_label_names ''tomorrow'' [] 0) =
     Inl (Error ''invalid start time: unsupported time format'')
   \<and> map called (snd (snd (exampleRun loki_label_names ''tomorrow'' [] 0))) =
     [ParseTime ''tomorrow'']"
proof -
  have p: "parseTime (exampleDeps (exampleRequest ''tomorrow'' []) 0)
             (Start (exampleRequest ''tomorrow'' [])) 2 =
           (Inl (Error ''unsupported time format''), 3)"
    by (simp add: exampleDeps_def exampleRequest_def)
  have s: "Start (exampleRequest ''tomorrow'' []) \<noteq> []"
    by (simp add: exampleRequest_def)
  from invalid_time_is_hard_error [OF
      example_decode [where req = "exampleRequest ''tomorrow'' []" and limitArg = 0
        and op = loki_label_names]
      example_now example_now example_run_collapse] p s
  show ?thesis
    by (simp add: exampleRequest_def Errorf_def numeral_2_eq_2)
qed

subsection \<open>Failure propagation\<close>

lemma pipeline_outcome:
  assumes "pipeline d startExpr endExpr bc bo bp xc xo xp fc fo (w, []) = (res, w', evs)"
      and "\<forall>s e. timeRange (bc s e) = Some (s, e) \<and> isBuild (bc s e)"
      and "\<forall>u. isExecute (xc u)" and "isFormat fc"
  shows "(isl res \<longleftrightarrow> (\<exists>ev\<in>set evs. failed ev))
       \<and> (\<forall>ev\<in>set (butlast evs). \<not> failed ev)
       \<and> (\<forall>r. res = Inr r \<longrightarrow>
            (\<exists>s e u result formatted.
               map called evs = map ParseTime (parsedExprs evs) @ [bc s e, xc u, fc]
             \<and> fo result = Inr formatted
             \<and> r = \<lparr>Content = [\<lparr>Type = ''text'', Text = formatted\<rparr>]\<rparr>))"
proof -
  have k: "\<And>s e. parsedExpr (bc s e) = None" "\<And>u. parsedExpr (xc u) = None"
    "parsedExpr fc = None"
    using assms(2-4) isBuild_kind isExecute_kind isFormat_kind by blast+
  show ?thesis
    using assms(1)
    by (auto simp add: k pipeline_def io_defs obs_defs split: sum.splits prod.splits if_splits;
        blast)
qed

text \<open>
  C7. For each of the three operations and every run: the handler returns an error exactly
  when the argument decoding failed or one of the calls it made failed; a decoding failure
  is returned as it is, with no call made; a call that failed is the last call made; and a
  successful result comes only after the parser calls, one builder call, one executor call
  and one formatter call, none failed, and consists of one content block of type \<open>text\<close>
  that holds what the formatter returned.
\<close>

theorem failure_aborts_pipeline:
  assumes "handler op d raw (w, []) = (res, w', evs)"
  shows "(isl res \<longleftrightarrow> isl (decodeArguments d op raw) \<or> (\<exists>ev\<in>set evs. failed ev))
       \<and> (\<forall>e. decodeArguments d op raw = Inl e \<longrightarrow> res = Inl e \<and> evs = [])
       \<and> (\<forall>ev\<in>set (butlast evs). \<not> failed ev)
       \<and> (\<forall>r. res = Inr r \<longrightarrow>
            (\<exists>b x f result formatted.
               map called evs = map ParseTime (parsedExprs evs) @ [b, x, f]
             \<and> isBuild b \<and> isExecute x \<and> isFormat f
             \<and> formatOutcome d f result = Some (Inr formatted)
             \<and> r = \<lparr>Content = [\<lparr>Type = ''text'', Text = formatted\<rparr>]\<rparr>))"
proof (cases "decodeArguments d op raw")
  case (Inl e)
  from decode_failure [OF Inl, of "(w, [])"] assms
  have "res = Inl e" "evs = []" by simp_all
  with Inl show ?thesis by simp
next
  case (Inr req)
  from handler_is_pipeline [OF Inr] obtain bc bo bp xc xo xp fc fo where
    p: "handler op d raw = pipeline d (Start req) (End req) bc bo bp xc xo xp fc fo"
    and k: "\<forall>s e. timeRange (bc s e) = Some (s, e) \<and> isBuild (bc s e)"
      "\<forall>u. isExecute (xc u)" "isFormat fc"
    and f: "\<forall>result. formatOutcome d fc result = Some (fo result)"
    by blast
  from assms have run:
    "pipeline d (Start req) (End req) bc bo bp xc xo xp fc fo (w, []) = (res, w', evs)"
    by (simp add: p)
  note o = pipeline_outcome [OF run k]
  have "\<forall>r. res = Inr r \<longrightarrow>
            (\<exists>b x f result formatted.
               map called evs = map ParseTime (parsedExprs evs) @ [b, x, f]
             \<and> isBuild b \<and> isExecute x \<and> isFormat f
             \<and> formatOutcome d f result = Some (Inr formatted)
             \<and> r = \<lparr>Content = [\<lparr>Type = ''text'', Text = formatted\<rparr>]\<rparr>)"
  proof (intro allI impI)
    fix r assume "res = Inr r"
    with o obtain s e u result formatted where
      m: "map called evs = map ParseTime (parsedExprs evs) @ [bc s e, xc u, fc]"
      and t: "fo result = Inr formatted" "r = \<lparr>Content = [\<lparr>Type = ''text'', Text = formatted\<rparr>]\<rparr>"
      by blast
    from f t have "formatOutcome d fc result = Some (Inr formatted)" by simp
    with m t k show "\<exists>b x f result formatted.
               map called evs = map ParseTime (parsedExprs evs) @ [b, x, f]
             \<and> isBuild b \<and> isExecute x \<and> isFormat f
             \<and> formatOutcome d f result = Some (Inr formatted)
             \<and> r = \<lparr>Content = [\<lparr>Type = ''text'', Text = formatted\<rparr>]\<rparr>"
      by blast
  qed
  with o Inr show ?thesis by simp
qed

theorem failure_aborts_pipeline_witness:
  "fst (exampleRun loki_query [] [] 5) = Inr \<lparr>Content = [\<lparr>Type = ''text'', Text = ''{}''\<rparr>]\<rparr>
   \<and> \<not> isl (decodeArguments (exampleDeps (exampleRequest [] []) 5) loki_query ''up'')
   \<and> list_all (\<lambda>ev. \<not> failed ev) (snd (snd (exampleRun loki_query [] [] 5)))
   \<and> fst (exampleRun loki_label_names ''tomorrow'' [] 0) =
       Inl (Error ''invalid start time: unsupported time format'')
   \<and> list_ex failed (snd (snd (exampleRun loki_label_names ''tomorrow'' [] 0)))"
  using failure_aborts_pipeline [OF example_run_collapse [of loki_query "[]" "[]" 5],
      THEN conjunct1]
    failure_aborts_pipeline [OF example_run_collapse [of loki_label_names "''tomorrow''" "[]" 0],
      THEN conjunct1]
  by (simp add: example_query_run example_invalid_start_run example_decode)

subsection \<open>The limit of a query\<close>

lemma pipeline_limit:
  assumes "pipeline d startExpr endExpr bc bo bp xc xo xp fc fo (w, []) = (res, w', evs)"
      and "\<forall>s e. queryLimit (bc s e) = Some l"
      and "\<forall>u. isExecute (xc u)" and "isFormat fc"
  shows "(\<forall>l'\<in>set (builtLimits evs). l' = l)
       \<and> ((\<forall>ev\<in>set evs. isParse (called ev) \<longrightarrow> \<not> failed ev) \<longrightarrow> builtLimits evs = [l])"
proof -
  have k: "\<And>s e. queryLimit (bc s e) = Some l"
    "\<And>u. queryLimit (xc u) = None" "queryLimit fc = None"
    using assms(2-4) isExecute_kind isFormat_kind by blast+
  show ?thesis
    using assms(1)
    by (auto simp add: k pipeline_def io_defs obs_defs split: sum.splits prod.splits if_splits)
qed

lemma go_int_in_range:
  assumes "0 < f" and "f < 2 ^ 63"
  shows "go_int impl f = float_trunc f \<and> float_trunc f = \<lfloor>f\<rfloor>"
proof -
  have t: "float_trunc f = \<lfloor>f\<rfloor>" using assms(1) by (simp add: float_trunc_def)
  have "0 \<le> \<lfloor>f\<rfloor>" using assms(1) by simp
  moreover have "\<lfloor>f\<rfloor> < 2 ^ 63" using assms(2) by (simp add: floor_less_iff)
  ultimately show ?thesis by (simp add: go_int_def t)
qed

text \<open>
  C9, as amended. For \<open>loki_query\<close> the limit passed to the URL builder is \<open>int(Limit)\<close> when
  \<open>Limit > 0\<close> and 100 otherwise. For \<open>0 < Limit < 2^63\<close> the conversion is the
  truncation towards zero (5.9 gives 5). A request whose limit is absent (zero) or negative
  runs exactly as the same request with limit 100, so it raises no error of its own.
\<close>

theorem query_limit_positive_or_default:
  assumes "VerifyAndUnmarshalQuery d raw = Inr req"
      and "HandleLokiQueryProtocol d raw (w, []) = (res, w', evs)"
  shows "(\<forall>l\<in>set (builtLimits evs).
            l = (if 0 < Limit req then go_int (intImpl d) (Limit req) else 100))
       \<and> ((\<forall>ev\<in>set evs. isParse (called ev) \<longrightarrow> \<not> failed ev) \<longrightarrow>
            builtLimits evs = [if 0 < Limit req then go_int (intImpl d) (Limit req) else 100])
       \<and> (0 < Limit req \<and> Limit req < 2 ^ 63 \<longrightarrow>
            go_int (intImpl d) (Limit req) = float_trunc (Limit req)
            \<and> float_trunc (Limit req) = \<lfloor>Limit req\<rfloor>)
       \<and> go_int (intImpl d) (59 / 10) = 5
       \<and> (Limit req \<le> 0 \<longrightarrow>
            HandleLokiQueryProtocol
              (d\<lparr>VerifyAndUnmarshalQuery := \<lambda>raw. Inr (req\<lparr>Limit := 100\<rparr>)\<rparr>) raw (w, [])
            = (res, w', evs))"
proof -
  let ?l = "if 0 < Limit req then go_int (intImpl d) (Limit req) else 100"
  from assms(2) have run: "pipeline d (Start req) (End req)
         (\<lambda>s e. BuildLokiQueryURL (getEnvOrDefault (Getenv d) (URL req) EnvLokiURL DefaultLokiURL)
            (Query req) s e ?l)
         (\<lambda>s e. buildLokiQueryURL d (getEnvOrDefault (Getenv d) (URL req) EnvLokiURL DefaultLokiURL)
            (Query req) s e ?l)
         ''failed to build query URL: ''
         (\<lambda>url. ExecuteLokiQuery url (getEnvOrDefault (Getenv d) (Username req) EnvLokiUsername [])
            (getEnvOrDefault (Getenv d) (Password req) EnvLokiPassword [])
            (getEnvOrDefault (Getenv d) (Token req) EnvLokiToken [])
            (getEnvOrDefault (Getenv d) (Org req) EnvLokiOrgID []))
         (\<lambda>url. executeLokiQuery d url (getEnvOrDefault (Getenv d) (Username req) EnvLokiUsername [])
            (getEnvOrDefault (Getenv d) (Password req) EnvLokiPassword [])
            (getEnvOrDefault (Getenv d) (Token req) EnvLokiToken [])
            (getEnvOrDefault (Getenv d) (Org req) EnvLokiOrgID []))
         ''query execution failed: ''
         (FormatLokiResults (if Format req \<noteq> [] then Format req else ''raw''))
         (\<lambda>result. formatLokiResults d result (if Format req \<noteq> [] then Format req else ''raw''))
         (w, []) = (res, w', evs)"
    unfolding query_pipeline assms(1) io_bind_lift_Inr .
  have a: "(\<forall>l\<in>set (builtLimits evs). l = ?l)
       \<and> ((\<forall>ev\<in>set evs. isParse (called ev) \<longrightarrow> \<not> failed ev) \<longrightarrow> builtLimits evs = [?l])"
    by (rule pipeline_limit [OF run]) simp_all
  have b: "0 < Limit req \<and> Limit req < 2 ^ 63 \<longrightarrow>
            go_int (intImpl d) (Limit req) = float_trunc (Limit req)
            \<and> float_trunc (Limit req) = \<lfloor>Limit req\<rfloor>"
    using go_int_in_range by blast
  have c: "go_int (intImpl d) (59 / 10) = 5"
    by (simp add: go_int_def float_trunc_def)
  have e: "Limit req \<le> 0 \<longrightarrow>
            HandleLokiQueryProtocol
              (d\<lparr>VerifyAndUnmarshalQuery := \<lambda>raw. Inr (req\<lparr>Limit := 100\<rparr>)\<rparr>) raw (w, [])
            = (res, w', evs)"
  proof
    assume "Limit req \<le> 0"
    then have "HandleLokiQueryProtocol
              (d\<lparr>VerifyAndUnmarshalQuery := \<lambda>raw. Inr (req\<lparr>Limit := 100\<rparr>)\<rparr>) raw
             = HandleLokiQueryProtocol d raw"
      unfolding query_pipeline
      by (simp add: assms(1) io_bind_lift_Inr go_int_def float_trunc_def pipeline_def
            cong: if_cong)
    with assms(2) show "HandleLokiQueryProtocol
              (d\<lparr>VerifyAndUnmarshalQuery := \<lambda>raw. Inr (req\<lparr>Limit := 100\<rparr>)\<rparr>) raw (w, [])
            = (res, w', evs)" by simp
  qed
  from a b c e show ?thesis by blast
qed

theorem query_limit_positive_or_default_witness:
  "(0::real) < 59 / 10 \<and> (59 / 10 :: real) < 2 ^ 63
   \<and> builtLimits (snd (snd (exampleRun loki_query [] [] (59 / 10)))) = [5]
   \<and> float_trunc (59 / 10) = 5"
  using query_limit_positive_or_default [OF
      example_query_decode [where req = "exampleRequest [] []" and limitArg = "59 / 10"]
      example_run_collapse [where op = loki_query, simplified handler.simps]]
  by (simp add: example_limit_run intImpl_def LokiLabelNamesRequest.extend_def
        LokiQueryRequest.fields_def float_trunc_def)

text \<open>
  C9 as stated fails for a limit that does not fit the 64-bit \<open>int\<close>: for the limit
  \<open>1e19\<close> the truncation is \<open>10000000000000000000\<close>, which no \<open>int\<close> holds; the concrete
  environment, whose conversion saturates, passes \<open>9223372036854775807\<close> to the builder.
\<close>

theorem query_limit_truncation_counterexample:
  "(0::real) < 10000000000000000000
   \<and> float_trunc 10000000000000000000 = 10000000000000000000
   \<and> builtLimits (snd (snd (exampleRun loki_query [] [] 10000000000000000000))) =
       [9223372036854775807]
   \<and> (\<forall>impl. go_int impl 10000000000000000000 \<noteq> float_trunc 10000000000000000000)"
proof -
  have t: "float_trunc 10000000000000000000 = 10000000000000000000"
    by (simp add: float_trunc_def)
  have "go_int impl 10000000000000000000 \<noteq> float_trunc 10000000000000000000" for impl
  proof -
    have "sint (impl 10000000000000000000) < 2 ^ (LENGTH(64) - 1)"
      by (rule sint_lt)
    then show ?thesis by (simp add: go_int_def t)
  qed
  then have "\<forall>impl. go_int impl 10000000000000000000 \<noteq> float_trunc 10000000000000000000"
    by blast
  then show ?thesis
    by (simp add: t example_big_limit_run obs_defs)
qed

subsection \<open>Whole seconds\<close>

lemma pipeline_whole_seconds:
  assumes "Now d w = (now1, w1)" and "Now d w1 = (now2, w2)"
      and "pipeline d startExpr endExpr bc bo bp xc xo xp fc fo (w, []) = (res, w', evs)"
      and "\<forall>s e. timeRange (bc s e) = Some (s, e) \<and> isBuild (bc s e)"
      and "\<forall>u. isExecute (xc u)" and "isFormat fc"
  shows "(\<forall>r\<in>set (builtRanges evs).
            (\<exists>t. fst r = Unix t
               \<and> (if startExpr = [] then t = Add now1 (- Hour)
                   else fst (parseTime d startExpr w2) = Inr t))
          \<and> (\<exists>t. snd r = Unix t
               \<and> (if endExpr = [] then t = now2
                   else fst (parseTime d endExpr
                          (if startExpr = [] then w2 else snd (parseTime d startExpr w2))) = Inr t)))
       \<and> ((\<forall>ev\<in>set evs. isParse (called ev) \<longrightarrow> \<not> failed ev) \<longrightarrow>
            length (builtRanges evs) = 1)"
proof -
  have k: "\<And>s e. timeRange (bc s e) = Some (s, e)"
    "\<And>u. timeRange (xc u) = None" "timeRange fc = None"
    using assms(4-6) isBuild_kind isExecute_kind isFormat_kind by blast+
  show ?thesis
    using assms(1-3)
    by (auto simp add: k pipeline_def io_defs obs_defs split: sum.splits prod.splits if_splits)
qed

text \<open>
  C10. For each of the three operations, every start and end bound passed to a URL builder
  is \<open>Unix t\<close> of an instant \<open>t\<close>: the instant the time parser returned for the argument, or
  the default instant when the argument is empty. \<open>Unix t\<close> is the whole second at or before
  \<open>t\<close>, so less than a second is dropped, and the nanosecond timestamp of the
  specification's URL builder for it is a multiple of \<open>1_000_000_000\<close>. When no parser call
  fails, exactly one range is built.
\<close>

theorem bounds_are_whole_seconds:
  assumes "decodeArguments d op raw = Inr req"
      and "Now d w = (now1, w1)" and "Now d w1 = (now2, w2)"
      and "handler op d raw (w, []) = (res, w', evs)"
  shows "(\<forall>r\<in>set (builtRanges evs).
            (\<exists>t. fst r = Unix t
               \<and> (if Start req = [] then t = Add now1 (- Hour)
                   else fst (parseTime d (Start req) w2) = Inr t))
          \<and> (\<exists>t. snd r = Unix t
               \<and> (if End req = [] then t = now2
                   else fst (parseTime d (End req)
                          (if Start req = [] then w2
                           else snd (parseTime d (Start req) w2))) = Inr t)))
       \<and> ((\<forall>ev\<in>set evs. isParse (called ev) \<longrightarrow> \<not> failed ev) \<longrightarrow>
            length (builtRanges evs) = 1)
       \<and> (\<forall>t. Unix t * 1000000000 \<le> UnixNano t
              \<and> UnixNano t < Unix t * 1000000000 + 1000000000
              \<and> unixNanos (Unix t) mod 1000000000 = 0)"
proof -
  from handler_is_pipeline [OF assms(1)] obtain bc bo bp xc xo xp fc fo where
    p: "handler op d raw = pipeline d (Start req) (End req) bc bo bp xc xo xp fc fo"
    and k: "\<forall>s e. timeRange (bc s e) = Some (s, e) \<and> isBuild (bc s e)"
      "\<forall>u. isExecute (xc u)" "isFormat fc"
    by blast
  from assms(4) have run:
    "pipeline d (Start req) (End req) bc bo bp xc xo xp fc fo (w, []) = (res, w', evs)"
    by (simp add: p)
  have "\<forall>t. Unix t * 1000000000 \<le> UnixNano t
              \<and> UnixNano t < Unix t * 1000000000 + 1000000000
              \<and> unixNanos (Unix t) mod 1000000000 = 0"
    using Unix_floor by (simp add: unixNanos_def)
  with pipeline_whole_seconds [OF assms(2) assms(3) run k]
  show ?thesis by blast
qed

theorem bounds_are_whole_seconds_witness:
  "builtRanges (snd (snd (exampleRun loki_label_values ''now'' ''now'' 0))) =
     [(1700000000, 1700000000)]
   \<and> fst (parseTime (exampleDeps (exampleRequest ''now'' ''now'') 0) ''now'' 2) =
       Inr (Instant 1700000000500002000)
   \<and> Unix (Instant 1700000000500002000) = 1700000000
   \<and> unixNanos 1700000000 mod 1000000000 = 0"
  using bounds_are_whole_seconds [OF
      example_decode [where req = "exampleRequest ''now'' ''now''" and limitArg = 0
        and op = loki_label_values]
      example_now example_now example_run_collapse]
  by (simp add: example_now_now_run obs_defs exampleDeps_def exampleClock_def Unix_def
        unixNanos_def)

section \<open>Properties of the collaborators taken from the specification\<close>

subsection \<open>Decimal text\<close>

lemma digitChar_digit:
  assumes "0 \<le> i" and "i < 10"
  shows "digitValue (digitChar i) = i \<and> isDigit (digitChar i)"
proof -
  have "list_all (\<lambda>i. digitValue (digitChar i) = i \<and> isDigit (digitChar i)) [0..9]"
    by code_simp
  moreover from assms have "i \<in> set [0..9]" by simp
  ultimately show ?thesis by (simp add: list_all_iff)
qed

lemma showNat_digits:
  "0 \<le> n \<Longrightarrow> showNat n \<noteq> [] \<and> list_all isDigit (showNat n)"
proof (induction n rule: showNat.induct)
  case (1 n)
  show ?case
  proof (cases "n < 10")
    case True
    with "1.prems" show ?thesis
      by (simp add: showNat.simps [of n] digitChar_digit)
  next
    case False
    with "1.prems" have "0 \<le> n div 10" "0 \<le> n mod 10" "n mod 10 < 10" by simp_all
    with "1.IH" False show ?thesis
      by (simp add: showNat.simps [of n] digitChar_digit)
  qed
qed

lemma foldl_showNat:
  "0 \<le> n \<Longrightarrow> foldl (\<lambda>acc c. 10 * acc + digitValue c) 0 (showNat n) = n"
proof (induction n rule: showNat.induct)
  case (1 n)
  show ?case
  proof (cases "n < 10")
    case True
    with "1.prems" show ?thesis
      by (simp add: showNat.simps [of n] digitChar_digit)
  next
    case False
    with "1.prems" have "0 \<le> n div 10" "0 \<le> n mod 10" "n mod 10 < 10" by simp_all
    with "1.IH" False show ?thesis
      by (simp add: showNat.simps [of n] digitChar_digit)
  qed
qed

lemma parseNat_showNat: "0 \<le> n \<Longrightarrow> parseNat (showNat n) = Some n"
  by (simp add: parseNat_def showNat_digits foldl_showNat)

subsection \<open>Time expressions\<close>

lemma relativeOffset_show:
  assumes "0 \<le> n" and "unitSeconds u = Some secs"
  shows "relativeOffset (CHR ''-'' # showNat n @ [u]) = Some (n * secs * Second)"
  using assms by (simp add: relativeOffset_def parseNat_showNat)

lemma resolve_relative:
  assumes "0 \<le> n" and "unitSeconds u = Some secs"
  shows "resolve (CHR ''-'' # showNat n @ [u]) T =
           Inr (Instant (UnixNano T - n * secs * 1000000000))"
  using relativeOffset_show [OF assms]
  by (simp add: resolve_def Add_def Second_def)

text \<open>
  C4. The resolver of the specification returns the reference time for \<open>now\<close>; for the
  decimal text of every integer \<open>n \<ge> 0\<close> and each unit it returns the reference time minus
  \<open>n\<close> seconds, minutes (60 s), hours (3600 s) or days (86400 s); \<open>5m\<close> and \<open>tomorrow\<close>,
  and every input that is neither \<open>now\<close>, nor a relative offset, nor an RFC 3339
  timestamp, fail with \<open>InvalidTimeExpression\<close>.
\<close>

theorem resolve_grammar:
  "resolve ''now'' T = Inr T
   \<and> (0 \<le> n \<longrightarrow>
        resolve (CHR ''-'' # showNat n @ ''s'') T = Inr (Instant (UnixNano T - n * 1000000000))
      \<and> resolve (CHR ''-'' # showNat n @ ''m'') T =
          Inr (Instant (UnixNano T - n * 60 * 1000000000))
      \<and> resolve (CHR ''-'' # showNat n @ ''h'') T =
          Inr (Instant (UnixNano T - n * 3600 * 1000000000))
      \<and> resolve (CHR ''-'' # showNat n @ ''d'') T =
          Inr (Instant (UnixNano T - n * 86400 * 1000000000)))
   \<and> resolve ''5m'' T = Inl InvalidTimeExpression
   \<and> resolve ''tomorrow'' T = Inl InvalidTimeExpression
   \<and> (expr \<noteq> ''now'' \<and> relativeOffset expr = None \<and> rfc3339 expr = None \<longrightarrow>
        resolve expr T = Inl InvalidTimeExpression)"
proof -
  have a: "resolve ''now'' T = Inr T" by (simp add: resolve_def)
  have b: "resolve ''5m'' T = Inl InvalidTimeExpression"
    by (simp add: resolve_def relativeOffset_def rfc3339_def)
  have c: "resolve ''tomorrow'' T = Inl InvalidTimeExpression"
    by (simp add: resolve_def relativeOffset_def rfc3339_def)
  have d: "expr \<noteq> ''now'' \<and> relativeOffset expr = None \<and> rfc3339 expr = None \<longrightarrow>
        resolve expr T = Inl InvalidTimeExpression"
    by (simp add: resolve_def)
  have u: "unitSeconds CHR ''s'' = Some 1" "unitSeconds CHR ''m'' = Some 60"
    "unitSeconds CHR ''h'' = Some 3600" "unitSeconds CHR ''d'' = Some 86400"
    by (simp_all add: unitSeconds_def)
  from a b c d resolve_relative [of n _ _ T, OF _ u(1)] resolve_relative [of n _ _ T, OF _ u(2)]
    resolve_relative [of n _ _ T, OF _ u(3)] resolve_relative [of n _ _ T, OF _ u(4)]
  show ?thesis by simp
qed

theorem resolve_grammar_witness:
  "resolve ''-5m'' (Instant 1700000000000000000) = Inr (Instant 1699999700000000000)
   \<and> resolve ''yesterday'' (Instant 0) = Inl InvalidTimeExpression"
proof -
  have s: "showNat 5 = ''5''" by (simp add: showNat.simps digitChar_def)
  have y: "''yesterday'' \<noteq> ''now'' \<and> relativeOffset ''yesterday'' = None
           \<and> rfc3339 ''yesterday'' = None"
    by (simp add: relativeOffset_def rfc3339_def)
  from resolve_grammar [of "Instant 1700000000000000000" 5 "''yesterday''"]
    resolve_grammar [of "Instant 0" 5 "''yesterday''"] y
  show ?thesis by (simp add: s)
qed

subsection \<open>Nanosecond timestamps in the URL\<close>

lemma isDigit_unreserved: "isDigit c \<Longrightarrow> isUnreserved c"
  by (auto simp add: isDigit_def isUnreserved_def)

lemma escape_unreserved: "list_all isUnreserved s \<Longrightarrow> escape s = s"
  by (induction s) (simp_all add: escape_def percentEncode_def)

lemma showInt_unreserved: "list_all isUnreserved (showInt i)"
proof -
  have d: "list_all isUnreserved (showNat n)" if "0 \<le> n" for n
    using showNat_digits [OF that] isDigit_unreserved
    by (simp add: list_all_iff)
  have "isUnreserved CHR ''-''" by (simp add: isUnreserved_def)
  with d [of i] d [of "- i"] show ?thesis
    by (simp add: showInt_def)
qed

lemma escape_showInt: "escape (showInt i) = showInt i"
  by (rule escape_unreserved [OF showInt_unreserved])

lemma escape_keys:
  "escape ''start'' = ''start''" "escape ''end'' = ''end''" "escape ''limit'' = ''limit''"
  "escape ''query'' = ''query''"
  by (simp_all add: escape_def percentEncode_def isUnreserved_def)

text \<open>
  C5. For each of the three builders of the specification and every start \<open>S\<close> and end
  \<open>E\<close> in seconds, the URL built on a base that parses holds the parameter \<open>start=\<close>
  with exactly the decimal text of \<open>S * 1_000_000_000\<close>, then the parameter \<open>end=\<close> with
  exactly the decimal text of \<open>E * 1_000_000_000\<close>: the labels and label-values URLs end
  there, the query URL goes on with \<open>&limit=\<close> and the limit and ends there. The decimal
  text reads back as the number.
\<close>

theorem url_timestamps_in_nanoseconds:
  "(parses base \<longrightarrow>
      (\<exists>pre. buildQueryURL parses base query S E limit =
         Inr (pre @ ''&start='' @ showInt (S * 1000000000) @ ''&end='' @
              showInt (E * 1000000000) @ ''&limit='' @ showInt limit))
    \<and> (\<exists>pre. buildLabelsURL parses base S E =
         Inr (pre @ ''?start='' @ showInt (S * 1000000000) @ ''&end='' @
              showInt (E * 1000000000)))
    \<and> (\<exists>pre. buildLabelValuesURL parses base label S E =
         Inr (pre @ ''?start='' @ showInt (S * 1000000000) @ ''&end='' @
              showInt (E * 1000000000))))
   \<and> unixNanos S = S * 1000000000
   \<and> (0 \<le> S \<longrightarrow> parseNat (showInt (S * 1000000000)) = Some (S * 1000000000))"
proof -
  have q: "parses base \<Longrightarrow> buildQueryURL parses base query S E limit =
      Inr ((base @ ''/loki/api/v1/query_range?query='' @ escape query) @
           ''&start='' @ showInt (S * 1000000000) @ ''&end='' @ showInt (E * 1000000000) @
           ''&limit='' @ showInt limit)"
    by (simp add: buildQueryURL_def escape_showInt escape_keys unixNanos_def)
  have l: "parses base \<Longrightarrow> buildLabelsURL parses base S E =
      Inr ((base @ ''/loki/api/v1/labels'') @
           ''?start='' @ showInt (S * 1000000000) @ ''&end='' @ showInt (E * 1000000000))"
    by (simp add: buildLabelsURL_def escape_showInt escape_keys unixNanos_def)
  have v: "parses base \<Longrightarrow> buildLabelValuesURL parses base label S E =
      Inr ((base @ ''/loki/api/v1/label/'' @ escape label @ ''/values'') @
           ''?start='' @ showInt (S * 1000000000) @ ''&end='' @ showInt (E * 1000000000))"
    by (simp add: buildLabelValuesURL_def escape_showInt escape_keys unixNanos_def)
  have p: "0 \<le> S \<longrightarrow> parseNat (showInt (S * 1000000000)) = Some (S * 1000000000)"
    by (simp add: showInt_def parseNat_showNat)
  have u: "unixNanos S = S * 1000000000" by (simp add: unixNanos_def)
  show ?thesis
  proof (intro conjI impI)
    assume b: "parses base"
    show "\<exists>pre. buildQueryURL parses base query S E limit =
         Inr (pre @ ''&start='' @ showInt (S * 1000000000) @ ''&end='' @
              showInt (E * 1000000000) @ ''&limit='' @ showInt limit)"
      by (rule exI [where x = "base @ ''/loki/api/v1/query_range?query='' @ escape query"])
        (rule q [OF b])
    show "\<exists>pre. buildLabelsURL parses base S E =
         Inr (pre @ ''?start='' @ showInt (S * 1000000000) @ ''&end='' @
              showInt (E * 1000000000))"
      by (rule exI [where x = "base @ ''/loki/api/v1/labels''"]) (rule l [OF b])
    show "\<exists>pre. buildLabelValuesURL parses base label S E =
         Inr (pre @ ''?start='' @ showInt (S * 1000000000) @ ''&end='' @
              showInt (E * 1000000000))"
      by (rule exI [where x = "base @ ''/loki/api/v1/label/'' @ escape label @ ''/values''"])
        (rule v [OF b])
  next
    show "unixNanos S = S * 1000000000" by (rule u)
  next
    assume "0 \<le> S"
    with p show "parseNat (showInt (S * 1000000000)) = Some (S * 1000000000)" by simp
  qed
qed

theorem url_timestamps_in_nanoseconds_witness:
  "buildLabelsURL (\<lambda>base. True) ''http://localhost:3100'' 1700000000 1700003600 =
     Inr ''http://localhost:3100/loki/api/v1/labels?start=1700000000000000000&end=1700003600000000000''
   \<and> parseNat ''1700000000000000000'' = Some 1700000000000000000"
proof -
  have s: "showInt 1700000000000000000 = ''1700000000000000000''"
    "showInt 1700003600000000000 = ''1700003600000000000''"
    by (simp_all add: showInt_def showNat.simps digitChar_def)
  from url_timestamps_in_nanoseconds [of "\<lambda>base. True" "''http://localhost:3100''" "[]"
      1700000000 1700003600 0 "[]", THEN conjunct2, THEN conjunct2]
  have "parseNat (showInt (1700000000 * 1000000000)) = Some (1700000000 * 1000000000)"
    by simp
  then have p: "parseNat ''1700000000000000000'' = Some 1700000000000000000"
    by (simp add: s)
  have "buildLabelsURL (\<lambda>base. True) ''http://localhost:3100'' 1700000000 1700003600 =
     Inr ''http://localhost:3100/loki/api/v1/labels?start=1700000000000000000&end=1700003600000000000''"
    by (simp add: buildLabelsURL_def unixNanos_def s escape_showInt [of 1700000000000000000, unfolded s]
          escape_showInt [of 1700003600000000000, unfolded s] escape_keys)
  with p show ?thesis by simp
qed

subsection \<open>Authorization of the backend call\<close>

lemma pipeline_executed:
  assumes "pipeline d startExpr endExpr bc bo bp xc xo xp fc fo (w, []) = (res, w', evs)"
      and "\<forall>s e. timeRange (bc s e) = Some (s, e) \<and> isBuild (bc s e)"
      and "\<forall>u. executeArgs (xc u) = Some (u, a)" and "isFormat fc"
  shows "\<forall>ev\<in>set evs. \<forall>u a'. executeArgs (called ev) = Some (u, a') \<longrightarrow> a' = a"
proof -
  have k: "\<And>s e. executeArgs (bc s e) = None" "\<And>u. executeArgs (xc u) = Some (u, a)"
    "executeArgs fc = None"
    using assms(2-4) isBuild_kind isFormat_kind by blast+
  show ?thesis
    using assms(1)
    by (auto simp add: k pipeline_def io_defs split: sum.splits prod.splits if_splits)
qed

text \<open>
  C6. In every run of the three handlers, each executor call gets the user name, password,
  token and organization that \<open>getEnvOrDefault\<close> resolved; and the executor of the
  specification, given them, sends exactly one request, whose authorization is the bearer
  token when the token is non-empty (whatever the user name and password), basic
  authentication when the token is empty and the user name is not, and none when both
  are empty.
\<close>

theorem bearer_token_precedes_basic_auth:
  assumes "decodeArguments d op raw = Inr req"
      and "handler op d raw (w, []) = (res, w', evs)"
      and "username = getEnvOrDefault (Getenv d) (Username req) EnvLokiUsername []"
      and "password = getEnvOrDefault (Getenv d) (Password req) EnvLokiPassword []"
      and "token = getEnvOrDefault (Getenv d) (Token req) EnvLokiToken []"
      and "orgID = getEnvOrDefault (Getenv d) (Org req) EnvLokiOrgID []"
  shows "(\<forall>ev\<in>set evs. \<forall>url a. executeArgs (called ev) = Some (url, a) \<longrightarrow>
            a = (username, password, token, orgID)
          \<and> map authorization
              (snd (execute (\<lambda>request sent. (response, sent @ [request])) decode
                      url username password token orgID [])) =
              [if token \<noteq> [] then Some (Bearer token)
               else if username \<noteq> [] then Some (Basic username password)
               else None])
       \<and> (token \<noteq> [] \<longrightarrow>
            authorization (newRequest url username password token orgID) = Some (Bearer token))
       \<and> (token = [] \<and> username \<noteq> [] \<longrightarrow>
            authorization (newRequest url username password token orgID) =
              Some (Basic username password))
       \<and> (token = [] \<and> username = [] \<longrightarrow>
            authorization (newRequest url username password token orgID) = None)"
proof -
  from handler_is_pipeline [OF assms(1)] obtain bc bo bp xc xo xp fc fo where
    p: "handler op d raw = pipeline d (Start req) (End req) bc bo bp xc xo xp fc fo"
    and k: "\<forall>s e. timeRange (bc s e) = Some (s, e) \<and> isBuild (bc s e)" "isFormat fc"
    and x: "\<forall>u. executeArgs (xc u) = Some (u, username, password, token, orgID)"
    unfolding assms(3-6) by blast
  from assms(2) have run:
    "pipeline d (Start req) (End req) bc bo bp xc xo xp fc fo (w, []) = (res, w', evs)"
    by (simp add: p)
  note e = pipeline_executed [OF run k(1) x k(2)]
  have s: "map authorization
              (snd (execute (\<lambda>request sent. (response, sent @ [request])) decode
                      u username password token orgID [])) =
              [if token \<noteq> [] then Some (Bearer token)
               else if username \<noteq> [] then Some (Basic username password)
               else None]" for u
    by (simp add: execute_def newRequest_def split: option.splits)
  from e s show ?thesis
    by (simp add: newRequest_def)
qed

lemma example_credentials_run:
  "handler loki_label_names (exampleDeps exampleCredentials 0) ''up'' (0, []) =
     (Inr \<lparr>Content = [\<lparr>Type = ''text'', Text = ''{}''\<rparr>]\<rparr>, 2,
      [\<lparr>called = BuildLokiLabelsURL ''http://localhost:3100'' 1699996400 1700000000,
        failed = False\<rparr>,
       \<lparr>called = ExecuteLokiLabelsQuery ''http://localhost:3100/labels'' ''admin'' ''secret''
          ''tok'' [],
        failed = False\<rparr>,
       \<lparr>called = FormatLokiLabelsResults ''raw'', failed = False\<rparr>])"
  by (simp add: example_defs exampleCredentials_def EnvLokiUsername_def EnvLokiPassword_def
        EnvLokiToken_def EnvLokiOrgID_def)

theorem bearer_token_precedes_basic_auth_witness:
  "map (\<lambda>ev. executeArgs (called ev))
     (snd (snd (handler loki_label_names (exampleDeps exampleCredentials 0) ''up'' (0, [])))) =
     [None, Some (''http://localhost:3100/labels'', ''admin'', ''secret'', ''tok'', []), None]
   \<and> map authorization
       (snd (execute (\<lambda>request sent. (Some \<lparr>status = 200, body = ''{}''\<rparr>, sent @ [request]))
               Some ''http://localhost:3100/labels'' ''admin'' ''secret'' ''tok'' [] [])) =
       [Some (Bearer ''tok'')]"
proof -
  have g: "getEnvOrDefault (Getenv (exampleDeps exampleCredentials 0))
             (Username exampleCredentials) EnvLokiUsername [] = ''admin''"
    "getEnvOrDefault (Getenv (exampleDeps exampleCredentials 0))
             (Password exampleCredentials) EnvLokiPassword [] = ''secret''"
    "getEnvOrDefault (Getenv (exampleDeps exampleCredentials 0))
             (Token exampleCredentials) EnvLokiToken [] = ''tok''"
    "getEnvOrDefault (Getenv (exampleDeps exampleCredentials 0))
             (Org exampleCredentials) EnvLokiOrgID [] = []"
    by (simp_all add: getEnvOrDefault_def exampleDeps_def exampleCredentials_def
          exampleRequest_def)
  from bearer_token_precedes_basic_auth [OF
      example_decode [where req = exampleCredentials and limitArg = 0 and op = loki_label_names]
      example_credentials_run g [symmetric],
      of "Some \<lparr>status = 200, body = ''{}''\<rparr>" Some "[]"]
  show ?thesis
    by (simp add: example_credentials_run [unfolded handler.simps])
qed

subsection \<open>Round trip of the compact JSON\<close>

lemma hexValue_hexDigit:
  assumes "n < 16"
  shows "hexValue (hexDigit n) = Some n"
proof -
  have "list_all (\<lambda>n. hexValue (hexDigit n) = Some n) [0..<16]"
    by code_simp
  moreover from assms have "n \<in> set [0..<16]" by simp
  ultimately show ?thesis by (simp add: list_all_iff)
qed

lemma hexValue_zero: "hexValue CHR ''0'' = Some 0"
  by (simp add: hexValue_def)

lemma char_of_div_mod: "char_of ((of_char c :: nat) div 16 * 16 + of_char c mod 16) = c"
  by simp

lemma parseChars_escape:
  "parseChars (concat (map jsonEscape s) @ CHR 0x22 # rest) = Some (s, rest)"
proof (induction s)
  case Nil
  show ?case by simp
next
  case (Cons c s)
  consider (quote) "c = CHR 0x22" | (backslash) "c = CHR 0x5C"
    | (control) "c \<noteq> CHR 0x22" "c \<noteq> CHR 0x5C" "of_char c < (32::nat)"
    | (plain) "c \<noteq> CHR 0x22" "c \<noteq> CHR 0x5C" "\<not> of_char c < (32::nat)"
    by blast
  then show ?case
  proof cases
    case quote
    with Cons show ?thesis by (simp add: jsonEscape_def unescape_def)
  next
    case backslash
    with Cons show ?thesis by (simp add: jsonEscape_def unescape_def)
  next
    case control
    then have hi: "(of_char c :: nat) div 16 < 8" "(of_char c :: nat) div 16 < 16"
      and lo: "(of_char c :: nat) mod 16 < 16" by simp_all
    from control Cons show ?thesis
      by (simp add: jsonEscape_def hexValue_zero hexValue_hexDigit [OF hi(2)]
            hexValue_hexDigit [OF lo] hi(1) char_of_div_mod)
  next
    case plain
    with Cons show ?thesis by (simp add: jsonEscape_def)
  qed
qed


lemma isNumChar_head:
  assumes "isNumChar c"
  shows "\<not> isSpace c \<and> c \<noteq> CHR ''['' \<and> c \<noteq> CHR '']'' \<and> c \<noteq> CHR ''{'' \<and> c \<noteq> CHR ''}''
       \<and> c \<noteq> CHR 0x22 \<and> c \<noteq> CHR ''n'' \<and> c \<noteq> CHR ''t'' \<and> c \<noteq> CHR ''f'' \<and> c \<noteq> CHR '',''"
  using assms by (auto simp add: isNumChar_def isSpace_def)

lemma delimited_not_num: "delimited rest \<Longrightarrow> takeWhile isNumChar (s @ rest) = takeWhile isNumChar s
    \<and> (list_all isNumChar s \<longrightarrow> dropWhile isNumChar (s @ rest) = rest)"
proof (induction s)
  case Nil
  then show ?case
    by (cases rest) (auto simp add: delimited_def isNumChar_def)
next
  case (Cons c s)
  then show ?case by simp
qed

lemma takeWhile_all: "list_all P s \<Longrightarrow> takeWhile P s = s"
  by (induction s) simp_all

lemma parse_null: "parseValue readNum (Suc fuel) (''null'' @ rest) = Some (JNull, rest)"
  by (simp add: skipWs_def isSpace_def)

lemma parse_true: "parseValue readNum (Suc fuel) (''true'' @ rest) = Some (JBool True, rest)"
  by (simp add: skipWs_def isSpace_def)

lemma parse_false: "parseValue readNum (Suc fuel) (''false'' @ rest) = Some (JBool False, rest)"
  by (simp add: skipWs_def isSpace_def)

lemma parse_string:
  "parseValue readNum (Suc fuel) (formatString s @ rest) = Some (JString s, rest)"
  by (simp add: formatString_def skipWs_def isSpace_def parseChars_escape)

lemma parse_number:
  assumes "numberCodec showNum readNum" and "delimited rest"
  shows "parseValue readNum (Suc fuel) (showNum x @ rest) = Some (JNumber x, rest)"
proof -
  from assms(1) have ne: "showNum x \<noteq> []" and all: "list_all isNumChar (showNum x)"
    and rd: "readNum (showNum x) = Some x"
    by (simp_all add: numberCodec_def)
  from ne obtain c cs where cs: "showNum x = c # cs" by (cases "showNum x") auto
  with all have "isNumChar c" by simp
  note h = isNumChar_head [OF this]
  have tk: "takeWhile isNumChar (showNum x @ rest) = showNum x"
    using delimited_not_num [OF assms(2), of "showNum x"] takeWhile_all [OF all] by simp
  have dr: "dropWhile isNumChar (showNum x @ rest) = rest"
    using delimited_not_num [OF assms(2), of "showNum x"] all by simp
  have pn: "parseNumber readNum (showNum x @ rest) = Some (JNumber x, rest)"
    by (simp add: parseNumber_def tk dr ne rd)
  have "parseValue readNum (Suc fuel) (c # cs @ rest) = parseNumber readNum (c # cs @ rest)"
    using h by (simp add: skipWs_def)
  with pn cs show ?thesis by simp
qed


lemma value_head:
  assumes "numberCodec showNum readNum"
  shows "\<exists>c cs. formatJSON showNum v = c # cs \<and> \<not> isSpace c \<and> c \<noteq> CHR '']''"
proof (cases v)
  case (JNumber x)
  from assms have "showNum x \<noteq> []" "list_all isNumChar (showNum x)"
    by (simp_all add: numberCodec_def)
  then obtain c cs where "showNum x = c # cs" "isNumChar c"
    by (cases "showNum x") auto
  with isNumChar_head [of c] JNumber show ?thesis by simp
qed (simp_all add: isSpace_def formatString_def)

lemma elements_head:
  assumes "numberCodec showNum readNum" and "vs \<noteq> []"
  shows "\<exists>c cs. formatElements showNum vs @ r = c # cs \<and> \<not> isSpace c \<and> c \<noteq> CHR '']''"
proof -
  from assms(2) obtain v vs' where vs: "vs = v # vs'" by (cases vs) auto
  from value_head [OF assms(1), of v] obtain c cs where
    "formatJSON showNum v = c # cs" "\<not> isSpace c" "c \<noteq> CHR '']''" by blast
  then show ?thesis unfolding vs by (cases vs') simp_all
qed

lemma members_head:
  assumes "kvs \<noteq> []"
  shows "\<exists>cs. formatMembers showNum kvs @ r = CHR 0x22 # cs"
proof -
  from assms obtain k v kvs' where kvs: "kvs = (k, v) # kvs'" by (cases kvs) auto
  show ?thesis unfolding kvs by (cases kvs') (simp_all add: formatString_def)
qed

lemma elements_round_trip:
  assumes "\<And>v fuel rest. v \<in> set vs \<Longrightarrow> cost v \<le> fuel \<Longrightarrow> delimited rest \<Longrightarrow>
             parseValue readNum fuel (formatJSON showNum v @ rest) = Some (v, rest)"
      and "vs \<noteq> []" and "costs vs \<le> fuel"
  shows "parseElements readNum fuel (formatElements showNum vs @ CHR '']'' # rest) =
           Some (vs, rest)"
  using assms
proof (induction vs arbitrary: fuel)
  case Nil
  then show ?case by simp
next
  case (Cons v vs)
  from Cons.prems(3) obtain f where f: "fuel = Suc f" "cost v \<le> f" "costs vs \<le> f"
    by (cases fuel) auto
  show ?case
  proof (cases "vs = []")
    case True
    have "parseValue readNum f (formatJSON showNum v @ CHR '']'' # rest) =
            Some (v, CHR '']'' # rest)"
      by (rule Cons.prems(1)) (simp_all add: f delimited_def)
    then show ?thesis
      by (simp add: True f skipWs_def isSpace_def)
  next
    case False
    then have fe: "formatElements showNum (v # vs) =
        formatJSON showNum v @ CHR '','' # formatElements showNum vs"
      by (cases vs) simp_all
    have v: "parseValue readNum f
               (formatJSON showNum v @ CHR '','' # formatElements showNum vs @ CHR '']'' # rest) =
             Some (v, CHR '','' # formatElements showNum vs @ CHR '']'' # rest)"
      by (rule Cons.prems(1)) (simp_all add: f delimited_def)
    have "parseElements readNum f (formatElements showNum vs @ CHR '']'' # rest) =
            Some (vs, rest)"
      by (rule Cons.IH) (simp_all add: Cons.prems(1) False f)
    with v show ?thesis
      by (simp add: fe f skipWs_def isSpace_def)
  qed
qed

lemma members_round_trip:
  assumes "\<And>k v fuel rest. (k, v) \<in> set kvs \<Longrightarrow> cost v \<le> fuel \<Longrightarrow> delimited rest \<Longrightarrow>
             parseValue readNum fuel (formatJSON showNum v @ rest) = Some (v, rest)"
      and "kvs \<noteq> []" and "costm kvs \<le> fuel"
  shows "parseMembers readNum fuel (formatMembers showNum kvs @ CHR ''}'' # rest) =
           Some (kvs, rest)"
  using assms
proof (induction kvs arbitrary: fuel)
  case Nil
  then show ?case by simp
next
  case (Cons kv kvs)
  obtain k v where kv: "kv = (k, v)" by (cases kv)
  from Cons.prems(3) obtain f where f: "fuel = Suc f" "cost v \<le> f" "costm kvs \<le> f"
    by (cases fuel) (auto simp add: kv)
  have key: "parseChars (concat (map jsonEscape k) @ CHR 0x22 # r) = Some (k, r)" for r
    by (rule parseChars_escape)
  show ?case
  proof (cases "kvs = []")
    case True
    have "parseValue readNum f (formatJSON showNum v @ CHR ''}'' # rest) =
            Some (v, CHR ''}'' # rest)"
      by (rule Cons.prems(1) [of k]) (simp_all add: kv f delimited_def)
    then show ?thesis
      by (simp add: True kv f skipWs_def isSpace_def formatString_def key)
  next
    case False
    then have fm: "formatMembers showNum ((k, v) # kvs) =
        formatString k @ CHR '':'' # formatJSON showNum v @ CHR '','' # formatMembers showNum kvs"
      by (cases kvs) simp_all
    have v: "parseValue readNum f
               (formatJSON showNum v @ CHR '','' # formatMembers showNum kvs @ CHR ''}'' # rest) =
             Some (v, CHR '','' # formatMembers showNum kvs @ CHR ''}'' # rest)"
      by (rule Cons.prems(1) [of k]) (simp_all add: kv f delimited_def)
    have "parseMembers readNum f (formatMembers showNum kvs @ CHR ''}'' # rest) =
            Some (kvs, rest)"
    proof (rule Cons.IH)
      fix k' v' fuel' rest'
      assume "(k', v') \<in> set kvs" "cost v' \<le> fuel'" "delimited rest'"
      then show "parseValue readNum fuel' (formatJSON showNum v' @ rest') = Some (v', rest')"
        using Cons.prems(1) [of k' v' fuel' rest'] by simp
    qed (simp_all add: False f)
    with v show ?thesis
      by (simp add: fm kv f skipWs_def isSpace_def formatString_def key)
  qed
qed

lemma value_round_trip:
  assumes "numberCodec showNum readNum"
  shows "cost v \<le> fuel \<Longrightarrow> delimited rest \<Longrightarrow>
           parseValue readNum fuel (formatJSON showNum v @ rest) = Some (v, rest)"
proof (induction v arbitrary: fuel rest)
  case JNull
  then obtain f where "fuel = Suc f" by (cases fuel) auto
  then show ?case using parse_null [of readNum f rest] by simp
next
  case (JBool b)
  then obtain f where "fuel = Suc f" by (cases fuel) auto
  then show ?case using parse_true [of readNum f rest] parse_false [of readNum f rest]
    by simp
next
  case (JNumber x)
  then obtain f where "fuel = Suc f" by (cases fuel) auto
  then show ?case using parse_number [OF assms JNumber.prems(2), of f x] by simp
next
  case (JString s)
  then obtain f where "fuel = Suc f" by (cases fuel) auto
  then show ?case using parse_string [of readNum f s rest] by simp
next
  case (JArray vs)
  from JArray.prems(1) obtain f where f: "fuel = Suc f" "costs vs \<le> f"
    by (cases fuel) auto
  show ?case
  proof (cases "vs = []")
    case True
    then show ?thesis by (simp add: f skipWs_def isSpace_def)
  next
    case False
    from elements_head [OF assms False, of "CHR '']'' # rest"] obtain c cs where
      h: "formatElements showNum vs @ CHR '']'' # rest = c # cs" "\<not> isSpace c" "c \<noteq> CHR '']''"
      by blast
    have "parseElements readNum f (formatElements showNum vs @ CHR '']'' # rest) =
            Some (vs, rest)"
      by (rule elements_round_trip [OF _ False f(2)]) (rule JArray.IH)
    then have "parseElements readNum f (c # cs) = Some (vs, rest)" by (simp add: h(1))
    moreover have "formatJSON showNum (JArray vs) @ rest = CHR ''['' # c # cs"
      using h(1) by simp
    moreover have "\<not> isSpace CHR ''[''" by (simp add: isSpace_def)
    ultimately show ?thesis
      by (simp add: f h(2,3) skipWs_def)
  qed
next
  case (JObject kvs)
  from JObject.prems(1) obtain f where f: "fuel = Suc f" "costm kvs \<le> f"
    by (cases fuel) auto
  show ?case
  proof (cases "kvs = []")
    case True
    then show ?thesis by (simp add: f skipWs_def isSpace_def)
  next
    case False
    from members_head [OF False, of showNum "CHR ''}'' # rest"] obtain cs where
      h: "formatMembers showNum kvs @ CHR ''}'' # rest = CHR 0x22 # cs"
      by blast
    have "parseMembers readNum f (formatMembers showNum kvs @ CHR ''}'' # rest) =
            Some (kvs, rest)"
    proof (rule members_round_trip [OF _ False f(2)])
      fix k v fuel' rest'
      assume "(k, v) \<in> set kvs" "cost v \<le> fuel'" "delimited rest'"
      then show "parseValue readNum fuel' (formatJSON showNum v @ rest') = Some (v, rest')"
        using JObject.IH [of "(k, v)" v fuel' rest'] by simp
    qed
    then have "parseMembers readNum f (CHR 0x22 # cs) = Some (kvs, rest)" by (simp add: h)
    moreover have "formatJSON showNum (JObject kvs) @ rest = CHR ''{'' # CHR 0x22 # cs"
      using h by simp
    ultimately show ?thesis
      by (simp add: f skipWs_def isSpace_def)
  qed
qed

lemma costs_le_length:
  assumes "\<And>v. v \<in> set vs \<Longrightarrow> cost v \<le> length (formatJSON showNum v)"
  shows "costs vs \<le> length (formatElements showNum vs) + 1"
  using assms
proof (induction vs)
  case Nil
  show ?case by simp
next
  case (Cons v vs)
  have v: "cost v \<le> length (formatJSON showNum v)" by (rule Cons.prems) simp
  have vs: "costs vs \<le> length (formatElements showNum vs) + 1"
    by (rule Cons.IH) (simp add: Cons.prems)
  show ?case
  proof (cases "vs = []")
    case True
    with v show ?thesis by simp
  next
    case False
    then have "formatElements showNum (v # vs) =
        formatJSON showNum v @ CHR '','' # formatElements showNum vs"
      by (cases vs) simp_all
    with v vs show ?thesis by simp
  qed
qed

lemma costm_le_length:
  assumes "\<And>k v. (k, v) \<in> set kvs \<Longrightarrow> cost v \<le> length (formatJSON showNum v)"
  shows "costm kvs \<le> length (formatMembers showNum kvs) + 1"
  using assms
proof (induction kvs)
  case Nil
  show ?case by simp
next
  case (Cons kv kvs)
  obtain k v where kv: "kv = (k, v)" by (cases kv)
  have v: "cost v \<le> length (formatJSON showNum v)" by (rule Cons.prems [of k]) (simp add: kv)
  have kvs: "costm kvs \<le> length (formatMembers showNum kvs) + 1"
  proof (rule Cons.IH)
    fix k' v' assume "(k', v') \<in> set kvs"
    then show "cost v' \<le> length (formatJSON showNum v')"
      using Cons.prems [of k' v'] by simp
  qed
  show ?case
  proof (cases "kvs = []")
    case True
    with v show ?thesis by (simp add: kv)
  next
    case False
    then have "formatMembers showNum ((k, v) # kvs) =
        formatString k @ CHR '':'' # formatJSON showNum v @ CHR '','' # formatMembers showNum kvs"
      by (cases kvs) simp_all
    with v kvs show ?thesis by (simp add: kv)
  qed
qed

lemma cost_le_length:
  assumes "numberCodec showNum readNum"
  shows "cost v \<le> length (formatJSON showNum v)"
proof (induction v)
  case (JNumber x)
  from assms have "showNum x \<noteq> []" by (simp add: numberCodec_def)
  then show ?case by (cases "showNum x") simp_all
next
  case (JString s)
  show ?case by (simp add: formatString_def)
next
  case (JArray vs)
  from costs_le_length [of vs showNum] JArray.IH show ?case by simp
next
  case (JObject kvs)
  have "costm kvs \<le> length (formatMembers showNum kvs) + 1"
  proof (rule costm_le_length)
    fix k v assume "(k, v) \<in> set kvs"
    then show "cost v \<le> length (formatJSON showNum v)"
      using JObject.IH [of "(k, v)" v] by simp
  qed
  then show ?case by simp
qed simp_all

text \<open>
  C8. For every decoded structure, the formatter of the specification in mode \<open>json\<close>
  returns the compact JSON, and reading that text back gives the structure itself,
  provided the platform's number text reads back as the number.
\<close>

theorem json_round_trip:
  assumes "numberCodec showNum readNum"
  shows "formatResult showNum renderRaw renderText result ''json'' =
           Inr (formatJSON showNum result)
       \<and> parseJSON readNum (formatJSON showNum result) = Some result"
proof -
  have "parseValue readNum (length (formatJSON showNum result))
          (formatJSON showNum result @ []) = Some (result, [])"
    by (rule value_round_trip [OF assms cost_le_length [OF assms]]) (simp add: delimited_def)
  then show ?thesis
    by (simp add: parseJSON_def formatResult_def skipWs_def)
qed

lemma isDigit_isNumChar: "isDigit c \<Longrightarrow> isNumChar c"
  by (auto simp add: isDigit_def isNumChar_def)

lemma int_numberCodec: "numberCodec showInt parseInt"
  unfolding numberCodec_def
proof (intro allI conjI)
  fix x :: int
  have d: "showNat n \<noteq> [] \<and> list_all isDigit (showNat n)" if "0 \<le> n" for n
    using showNat_digits [OF that] .
  show "showInt x \<noteq> []" using d [of x] by (simp add: showInt_def)
  have "list_all isNumChar (showNat n)" if "0 \<le> n" for n
    using d [OF that] isDigit_isNumChar by (simp add: list_all_iff)
  moreover have "isNumChar CHR ''-''" by (simp add: isNumChar_def)
  ultimately show "list_all isNumChar (showInt x)" by (simp add: showInt_def)
  show "parseInt (showInt x) = Some x"
  proof (cases "x < 0")
    case True
    then show ?thesis by (simp add: showInt_def parseInt_def parseNat_showNat)
  next
    case False
    with d [of x] obtain c cs where c: "showNat x = c # cs" "isDigit c"
      by (cases "showNat x") auto
    then have "c \<noteq> CHR ''-''" by (auto simp add: isDigit_def)
    with c False parseNat_showNat [of x] show ?thesis
      by (simp add: showInt_def parseInt_def)
  qed
qed

theorem json_round_trip_witness:
  "parseJSON parseInt
     (formatJSON showInt
        (JObject [(''status'', JString ''success''),
                  (''data'', JArray [JString ''job'', JNumber (- 20), JNull, JBool True])])) =
   Some (JObject [(''status'', JString ''success''),
                  (''data'', JArray [JString ''job'', JNumber (- 20), JNull, JBool True])])"
  by (rule json_round_trip [OF int_numberCodec, THEN conjunct2])

end
